theory Spec2Isabelle
  imports Complex_Main
begin

section \<open>Values of the export script\<close>

text \<open>
  The script \<^verbatim>\<open>lesson7_files/export_data.py\<close> moves Python values between the data
  loader, the metrics calculator and \<^verbatim>\<open>json.dump\<close>. The values are embedded as one
  datatype with a constructor for each kind of object that \<^verbatim>\<open>to_python_types\<close>
  tells apart with \<^verbatim>\<open>isinstance\<close>, and one for every other object.

  Floats are never computed with here, only carried and compared, so a float is a
  rational or one of the three special values.
\<close>

datatype pyfloat = Finite rat | NaN | PosInf | NegInf

text \<open>
  A \<^verbatim>\<open>dict\<close> is an association list in insertion order (the order in which
  \<^verbatim>\<open>json.dump\<close> writes the keys). A \<^verbatim>\<open>pd.Series\<close> is the list of its
  (label, value) pairs in positional order. A \<^verbatim>\<open>pd.DataFrame\<close> has row labels,
  column names and rows of cells; the columns this script reads are named by strings.
  \<open>PObject\<close> stands for any object of another class (a timestamp, say), which has
  neither a \<^verbatim>\<open>get\<close> nor a \<^verbatim>\<open>to_dict\<close> attribute.
\<close>

datatype pyval =
    PNone
  | PBool bool
  | PInt int
  | PFloat pyfloat
  | PStr string
  | PList "pyval list"
  | PTuple "pyval list"
  | PDict "(pyval \<times> pyval) list"
  | NpInt int
  | NpFloat pyfloat
  | NpBool bool
  | NdArray "pyval list"
  | DataFrame frame
  | Series "(pyval \<times> pyval) list"
  | PObject string
and frame =
    Frame (index: "pyval list") (columns: "string list") (rows: "pyval list list")

datatype error = KeyError | AttributeError | TypeError | Upstream string

definition err_bind :: "error + 'a \<Rightarrow> ('a \<Rightarrow> error + 'b) \<Rightarrow> error + 'b" where
  "err_bind m f = (case m of Inl e \<Rightarrow> Inl e | Inr x \<Rightarrow> f x)"

subsection \<open>Dictionaries\<close>

text \<open>
  Python compares dictionary keys with \<^verbatim>\<open>==\<close>, under which \<^verbatim>\<open>1\<close>, \<^verbatim>\<open>1.0\<close>,
  \<^verbatim>\<open>True\<close> and the numpy scalars of the same value are one key. \<open>key_norm\<close> maps a
  key to the representative of its class. (A NaN counts as equal to itself, as in the
  hash tables of pandas; tuples are compared component by component as they are.)
\<close>

fun key_norm :: "pyval \<Rightarrow> pyval" where
  "key_norm (PBool b) = PFloat (Finite (if b then 1 else 0))"
| "key_norm (NpBool b) = PFloat (Finite (if b then 1 else 0))"
| "key_norm (PInt i) = PFloat (Finite (of_int i))"
| "key_norm (NpInt i) = PFloat (Finite (of_int i))"
| "key_norm (NpFloat x) = PFloat x"
| "key_norm v = v"

definition key_eq :: "pyval \<Rightarrow> pyval \<Rightarrow> bool" where
  "key_eq a b = (key_norm a = key_norm b)"

text \<open>\<^verbatim>\<open>d[k] = v\<close>: an existing key keeps its place and its key object.\<close>

fun dict_setitem :: "(pyval \<times> pyval) list \<Rightarrow> pyval \<Rightarrow> pyval \<Rightarrow> (pyval \<times> pyval) list" where
  "dict_setitem [] k v = [(k, v)]"
| "dict_setitem ((k', v') # kvs) k v =
     (if key_eq k' k then (k', v) # kvs else (k', v') # dict_setitem kvs k v)"

definition dict_of_items :: "(pyval \<times> pyval) list \<Rightarrow> (pyval \<times> pyval) list" where
  "dict_of_items items = foldl (\<lambda>d kv. dict_setitem d (fst kv) (snd kv)) [] items"

text \<open>\<^verbatim>\<open>d.get(key, default)\<close> for a string key, which only equals a string.\<close>

definition dict_get :: "(pyval \<times> pyval) list \<Rightarrow> string \<Rightarrow> pyval \<Rightarrow> pyval" where
  "dict_get kvs key dflt = (case map_of kvs (PStr key) of None \<Rightarrow> dflt | Some v \<Rightarrow> v)"

subsection \<open>The pandas and numpy operations the script calls\<close>

text \<open>
  Modelled from the spec: pandas and numpy are libraries outside the repository, so the
  methods the script calls on their objects are written out here from the spec's
  description of the Type Normalizer and of the orchestrator's steps (a table becomes
  one mapping per row from column name to cell value with native numbers, a series
  becomes a mapping from label to value, an array becomes the sequence of its
  elements) and from the documented behaviour of the methods.
\<close>

text \<open>What \<^verbatim>\<open>to_dict\<close> does to each value: numpy scalars become native ones.\<close>

fun maybe_box_native :: "pyval \<Rightarrow> pyval" where
  "maybe_box_native (NpInt i) = PInt i"
| "maybe_box_native (NpFloat x) = PFloat x"
| "maybe_box_native (NpBool b) = PBool b"
| "maybe_box_native v = v"

text \<open>\<^verbatim>\<open>DataFrame.to_dict(orient='records')\<close>: one \<^verbatim>\<open>dict\<close> per row.\<close>

definition to_dict_records :: "frame \<Rightarrow> (pyval \<times> pyval) list list" where
  "to_dict_records f =
     map (\<lambda>r. dict_of_items (zip (map PStr (columns f)) (map maybe_box_native r))) (rows f)"

text \<open>\<^verbatim>\<open>Series.to_dict()\<close>.\<close>

definition series_to_dict :: "(pyval \<times> pyval) list \<Rightarrow> (pyval \<times> pyval) list" where
  "series_to_dict lvs = dict_of_items (map (\<lambda>lv. (fst lv, maybe_box_native (snd lv))) lvs)"

text \<open>\<^verbatim>\<open>ndarray.tolist()\<close>: nested arrays become nested lists, items native.\<close>

fun tolist :: "pyval \<Rightarrow> pyval" where
  "tolist (NdArray xs) = PList (map tolist xs)"
| "tolist (NpInt i) = PInt i"
| "tolist (NpFloat x) = PFloat x"
| "tolist (NpBool b) = PBool b"
| "tolist v = v"

text \<open>\<^verbatim>\<open>hasattr(x, 'to_dict')\<close>.\<close>

fun has_to_dict :: "pyval \<Rightarrow> bool" where
  "has_to_dict (DataFrame f) = True"
| "has_to_dict (Series lvs) = True"
| "has_to_dict v = False"

text \<open>
  \<^verbatim>\<open>x.to_dict('records')\<close> after \<^verbatim>\<open>x.head(n)\<close>: on a series the positional
  argument is the \<^verbatim>\<open>into\<close> class, and a string there raises \<^verbatim>\<open>TypeError\<close>.
\<close>

definition head :: "nat \<Rightarrow> frame \<Rightarrow> frame" where
  "head n f = Frame (take n (index f)) (columns f) (take n (rows f))"

fun to_dict_records_of :: "pyval \<Rightarrow> error + (pyval \<times> pyval) list list" where
  "to_dict_records_of (DataFrame f) = Inr (to_dict_records f)"
| "to_dict_records_of (Series lvs) = Inl TypeError"
| "to_dict_records_of v = Inl AttributeError"

fun head_of :: "nat \<Rightarrow> pyval \<Rightarrow> error + pyval" where
  "head_of n (DataFrame f) = Inr (DataFrame (head n f))"
| "head_of n (Series lvs) = Inr (Series (take n lvs))"
| "head_of n v = Inl AttributeError"

text \<open>
  \<^verbatim>\<open>df[name]\<close>: the column as a series, \<^verbatim>\<open>KeyError\<close> when there is none.
  (Column names are taken to be distinct, as in the tables the loader builds.)
\<close>

fun column_pos :: "string \<Rightarrow> string list \<Rightarrow> nat option" where
  "column_pos c [] = None"
| "column_pos c (x # xs) = (if x = c then Some 0 else map_option Suc (column_pos c xs))"

definition getitem_column :: "frame \<Rightarrow> string \<Rightarrow> error + (pyval \<times> pyval) list" where
  "getitem_column f c =
     (case column_pos c (columns f) of
        None \<Rightarrow> Inl KeyError
      | Some j \<Rightarrow> Inr (zip (index f) (map (\<lambda>r. r ! j) (rows f))))"

text \<open>\<^verbatim>\<open>s.isin(values)\<close>, \<^verbatim>\<open>s.notna()\<close> and \<^verbatim>\<open>df[mask]\<close>.\<close>

definition isin :: "(pyval \<times> pyval) list \<Rightarrow> pyval list \<Rightarrow> bool list" where
  "isin lvs vals = map (\<lambda>lv. list_ex (key_eq (snd lv)) vals) lvs"

fun isna :: "pyval \<Rightarrow> bool" where
  "isna PNone = True"
| "isna (PFloat x) = (x = NaN)"
| "isna (NpFloat x) = (x = NaN)"
| "isna v = False"

definition notna :: "(pyval \<times> pyval) list \<Rightarrow> bool list" where
  "notna lvs = map (\<lambda>lv. \<not> isna (snd lv)) lvs"

definition getitem_mask :: "frame \<Rightarrow> bool list \<Rightarrow> frame" where
  "getitem_mask f msk =
     Frame (map fst (filter snd (zip (index f) msk))) (columns f)
           (map fst (filter snd (zip (rows f) msk)))"

text \<open>
  \<^verbatim>\<open>s.value_counts()\<close>: missing values dropped, one entry per distinct value in the
  order of first appearance, then sorted by falling count (entries of equal count keep
  their order). The labels are the values as iterating the index yields them.
\<close>

fun count_groups :: "pyval list \<Rightarrow> (pyval \<times> nat) list" where
  "count_groups [] = []"
| "count_groups (x # xs) =
     (x, Suc (length (filter (key_eq x) xs))) # count_groups (filter (\<lambda>y. \<not> key_eq x y) xs)"

definition value_counts :: "(pyval \<times> pyval) list \<Rightarrow> (pyval \<times> pyval) list" where
  "value_counts lvs =
     map (\<lambda>kc. (maybe_box_native (fst kc), NpInt (int (snd kc))))
       (sort_key (\<lambda>kc. - int (snd kc))
          (count_groups (filter (\<lambda>v. \<not> isna v) (map snd lvs))))"

text \<open>
  \<^verbatim>\<open>x.get(key, default)\<close> with a string key: a \<^verbatim>\<open>dict\<close> looks the key up, a frame
  gives the column of that name, a series the value at that label (the sub-series
  when the label repeats); any other object has no \<^verbatim>\<open>get\<close>.
\<close>

fun py_get :: "pyval \<Rightarrow> string \<Rightarrow> pyval \<Rightarrow> error + pyval" where
  "py_get (PDict kvs) key dflt = Inr (dict_get kvs key dflt)"
| "py_get (DataFrame f) key dflt =
     (case getitem_column f key of Inl e \<Rightarrow> Inr dflt | Inr col \<Rightarrow> Inr (Series col))"
| "py_get (Series lvs) key dflt =
     (case filter (\<lambda>lv. fst lv = PStr key) lvs of
        [] \<Rightarrow> Inr dflt
      | [lv] \<Rightarrow> Inr (snd lv)
      | ms \<Rightarrow> Inr (Series ms))"
| "py_get v key dflt = Inl AttributeError"

section \<open>The Type Normalizer\<close>

text \<open>\<^verbatim>\<open>to_python_types\<close>, lines 21 to 38, one equation per branch in the source's order.\<close>

fun to_python_types :: "pyval \<Rightarrow> pyval" where
  "to_python_types (DataFrame f) = PList (map PDict (to_dict_records f))"
| "to_python_types (Series lvs) = PDict (series_to_dict lvs)"
| "to_python_types (NpInt i) = PInt i"
| "to_python_types (NpFloat x) = PFloat x"
| "to_python_types (NdArray xs) = tolist (NdArray xs)"
| "to_python_types (PDict kvs) = PDict (map (\<lambda>kv. (fst kv, to_python_types (snd kv))) kvs)"
| "to_python_types (PList xs) = PList (map to_python_types xs)"
| "to_python_types v = v"

text \<open>A table whose rows all have one cell per column and whose column names differ.\<close>

definition wf_frame :: "frame \<Rightarrow> bool" where
  "wf_frame f \<longleftrightarrow>
     length (index f) = length (rows f) \<and> distinct (columns f) \<and>
     list_all (\<lambda>r. length r = length (columns f)) (rows f)"

fun np_numeric :: "pyval \<Rightarrow> bool" where
  "np_numeric (NpInt i) = True"
| "np_numeric (NpFloat x) = True"
| "np_numeric v = False"

section \<open>The Export Orchestrator\<close>

text \<open>
  The configuration constants at the top of the script (lines 15 to 19). The comparison
  year and the analysis month may be \<^verbatim>\<open>None\<close>.
\<close>

record config =
  ANALYSIS_YEAR :: int
  COMPARISON_YEAR :: "int option"
  ANALYSIS_MONTH :: "int option"
  DATA_PATH :: string
  OUTPUT_DIR :: string

definition script_config :: config where
  "script_config =
     \<lparr>ANALYSIS_YEAR = 2023, COMPARISON_YEAR = Some 2022, ANALYSIS_MONTH = None,
      DATA_PATH = ''ecommerce_data/'', OUTPUT_DIR = ''EDA_Refactored/data''\<rparr>"

text \<open>The Python value of an optional constant, and its truth value in \<^verbatim>\<open>if COMPARISON_YEAR:\<close>.\<close>

definition opt_int :: "int option \<Rightarrow> pyval" where
  "opt_int y = (case y of None \<Rightarrow> PNone | Some n \<Rightarrow> PInt n)"

definition truthy :: "int option \<Rightarrow> bool" where
  "truthy y = (case y of None \<Rightarrow> False | Some n \<Rightarrow> n \<noteq> 0)"

text \<open>
  The two collaborators are modules of the repository that the script only calls, so
  they are parameters: \<^verbatim>\<open>loader.create_sales_dataset(year_filter, month_filter,
  status_filter)\<close> and \<^verbatim>\<open>BusinessMetricsCalculator(data).generate_comprehensive_report(
  current_year, previous_year)\<close>. Either may raise. A call that leaves
  \<^verbatim>\<open>year_filter\<close> out passes no year (\<open>None\<close>).
\<close>

type_synonym loader = "int option \<Rightarrow> int option \<Rightarrow> string \<Rightarrow> error + frame"

type_synonym calculator = "frame \<Rightarrow> int \<Rightarrow> int option \<Rightarrow> error + pyval"

text \<open>Lines 48 to 67: the primary, the comparison and the combined dataset.\<close>

definition combined_data :: "config \<Rightarrow> loader \<Rightarrow> error + frame" where
  "combined_data cfg create_sales_dataset =
     err_bind (create_sales_dataset (Some (ANALYSIS_YEAR cfg)) (ANALYSIS_MONTH cfg) ''delivered'')
       (\<lambda>sales_data.
     err_bind (if truthy (COMPARISON_YEAR cfg)
               then map_sum id Some
                      (create_sales_dataset (COMPARISON_YEAR cfg) (ANALYSIS_MONTH cfg) ''delivered'')
               else Inr None)
       (\<lambda>comparison_data.
     err_bind (case comparison_data of
                 None \<Rightarrow> Inr sales_data
               | Some c \<Rightarrow> create_sales_dataset None (ANALYSIS_MONTH cfg) ''delivered'')
       (\<lambda>combined.
     case comparison_data of
       None \<Rightarrow> Inr combined
     | Some c \<Rightarrow>
         err_bind (getitem_column combined ''purchase_year'')
           (\<lambda>years. Inr (getitem_mask combined
              (isin years [PInt (ANALYSIS_YEAR cfg), opt_int (COMPARISON_YEAR cfg)]))))))"

text \<open>\<^verbatim>\<open>report.get(group, {}).get(field, default)\<close>.\<close>

definition report_field :: "pyval \<Rightarrow> string \<Rightarrow> string \<Rightarrow> pyval \<Rightarrow> error + pyval" where
  "report_field report grp fld dflt =
     err_bind (py_get report grp (PDict [])) (\<lambda>g. py_get g fld dflt)"

text \<open>Lines 82 to 89: the KPI mapping.\<close>

definition kpi_metrics :: "pyval \<Rightarrow> error + pyval" where
  "kpi_metrics report =
     err_bind (report_field report ''revenue_metrics'' ''total_orders'' (PInt 0)) (\<lambda>total_orders.
     err_bind (report_field report ''revenue_metrics'' ''total_revenue'' (PInt 0)) (\<lambda>total_revenue.
     err_bind (report_field report ''revenue_metrics'' ''average_order_value'' (PInt 0)) (\<lambda>avg_order_value.
     err_bind (report_field report ''revenue_metrics'' ''revenue_growth_pct'' (PInt 0)) (\<lambda>revenue_growth_pct.
     err_bind (report_field report ''customer_metrics'' ''unique_customers'' (PInt 0)) (\<lambda>unique_customers.
     err_bind (report_field report ''delivery_metrics'' ''fast_delivery_percentage'' (PInt 0)) (\<lambda>fast_delivery_pct.
     Inr (PDict [(PStr ''total_orders'', total_orders),
                 (PStr ''total_revenue'', total_revenue),
                 (PStr ''avg_order_value'', avg_order_value),
                 (PStr ''revenue_growth_pct'', revenue_growth_pct),
                 (PStr ''unique_customers'', unique_customers),
                 (PStr ''fast_delivery_pct'', fast_delivery_pct)])))))))"

text \<open>Lines 95 to 109: the monthly revenue rows.\<close>

definition monthly_mapped :: "config \<Rightarrow> (pyval \<times> pyval) list \<Rightarrow> pyval" where
  "monthly_mapped cfg item =
     PDict [(PStr ''month'', dict_get item ''month'' (PInt 0)),
            (PStr ''revenue'', dict_get item ''revenue'' (PInt 0)),
            (PStr ''year'', PInt (ANALYSIS_YEAR cfg)),
            (PStr ''orders'', dict_get item ''orders'' (PInt 0))]"

definition monthly_data :: "config \<Rightarrow> pyval \<Rightarrow> error + pyval" where
  "monthly_data cfg report =
     err_bind (py_get report ''monthly_trends'' (PList [])) (\<lambda>monthly_trends.
       if has_to_dict monthly_trends
       then err_bind (to_dict_records_of monthly_trends)
              (\<lambda>recs. Inr (PList (map (monthly_mapped cfg) recs)))
       else Inr monthly_trends)"

text \<open>Lines 115 to 130: the category rows.\<close>

definition categories_mapped :: "(pyval \<times> pyval) list \<Rightarrow> pyval" where
  "categories_mapped cat =
     PDict [(PStr ''category'', dict_get cat ''product_category_name'' (PStr [])),
            (PStr ''revenue'', dict_get cat ''total_revenue'' (PInt 0)),
            (PStr ''orders'', dict_get cat ''unique_orders'' (PInt 0)),
            (PStr ''items_sold'', dict_get cat ''items_sold'' (PInt 0))]"

definition categories_data :: "pyval \<Rightarrow> error + pyval" where
  "categories_data report =
     err_bind (py_get report ''product_performance'' (PDict [])) (\<lambda>product_perf.
     err_bind (py_get product_perf ''top_categories'' (PList [])) (\<lambda>categories_df.
       if has_to_dict categories_df
       then err_bind (head_of 15 categories_df) (\<lambda>h.
            err_bind (to_dict_records_of h)
              (\<lambda>recs. Inr (PList (map categories_mapped recs))))
       else Inr (case categories_df of PList xs \<Rightarrow> PList (take 15 xs) | _ \<Rightarrow> PList [])))"

text \<open>Lines 136 to 149: the review statistics.\<close>

definition score_counts :: "frame \<Rightarrow> error + pyval" where
  "score_counts combined =
     err_bind (getitem_column combined ''review_score'') (\<lambda>scores.
     err_bind (getitem_column (getitem_mask combined (notna scores)) ''review_score'')
       (\<lambda>present. Inr (PDict (series_to_dict (value_counts present)))))"

definition reviews_export :: "frame \<Rightarrow> pyval \<Rightarrow> error + pyval" where
  "reviews_export combined report =
     err_bind (py_get report ''customer_satisfaction'' (PDict [])) (\<lambda>customer_satisfaction.
     err_bind (score_counts combined) (\<lambda>counts.
     err_bind (py_get customer_satisfaction ''avg_review_score'' (PInt 0)) (\<lambda>average_score.
     err_bind (py_get customer_satisfaction ''total_reviews'' (PInt 0)) (\<lambda>total_reviews.
     err_bind (py_get customer_satisfaction ''score_5_percentage'' (PInt 0)) (\<lambda>score_5.
     err_bind (py_get customer_satisfaction ''score_4_plus_percentage'' (PInt 0)) (\<lambda>score_4_plus.
     Inr (PDict [(PStr ''score_counts'', counts),
                 (PStr ''average_score'', average_score),
                 (PStr ''total_reviews'', total_reviews),
                 (PStr ''score_5_percentage'', score_5),
                 (PStr ''score_4_plus_percentage'', score_4_plus)])))))))"

text \<open>
  The eight export records in the order the script writes them, each with its file
  name: the value handed to \<^verbatim>\<open>to_python_types\<close>, or the exception its section raises.
\<close>

definition export_records :: "config \<Rightarrow> frame \<Rightarrow> pyval \<Rightarrow> (string \<times> (error + pyval)) list" where
  "export_records cfg combined report =
     [(''kpi_metrics.json'', kpi_metrics report),
      (''revenue.json'', monthly_data cfg report),
      (''categories.json'', categories_data report),
      (''reviews.json'', reviews_export combined report),
      (''geo.json'', py_get report ''geographic_performance'' (PList [])),
      (''delivery.json'', py_get report ''delivery_performance'' (PDict [])),
      (''payments.json'', py_get report ''payment_analysis'' (PDict [])),
      (''customers.json'', py_get report ''customer_segments'' (PDict []))]"

text \<open>
  The files are a map from path to contents. \<^verbatim>\<open>json.dump\<close> is a parameter: for a
  value it gives the text it writes and the exception it raises, if any.
  \<^verbatim>\<open>open(path, 'w')\<close> replaces the contents of the file; when the dump raises, the
  text written so far stays and the run stops.
\<close>

type_synonym files = "string \<rightharpoonup> string"

type_synonym serializer = "pyval \<Rightarrow> string \<times> error option"

definition write_json :: "serializer \<Rightarrow> string \<Rightarrow> pyval \<Rightarrow> files \<Rightarrow> files \<times> error option" where
  "write_json json_dump path v fs =
     (fs(path \<mapsto> fst (json_dump (to_python_types v))), snd (json_dump (to_python_types v)))"

fun write_all :: "serializer \<Rightarrow> string \<Rightarrow> (string \<times> (error + pyval)) list \<Rightarrow> files \<Rightarrow> files \<times> error option" where
  "write_all json_dump dir [] fs = (fs, None)"
| "write_all json_dump dir ((name, Inl e) # rest) fs = (fs, Some e)"
| "write_all json_dump dir ((name, Inr v) # rest) fs =
     (case write_json json_dump (dir @ ''/'' @ name) v fs of
        (fs', Some e) \<Rightarrow> (fs', Some e)
      | (fs', None) \<Rightarrow> write_all json_dump dir rest fs')"

text \<open>
  \<^verbatim>\<open>export_data\<close>, lines 40 to 172: the files after the run and the exception that
  ended it, if any. \<^verbatim>\<open>load_and_process_data\<close> gives the loader.
\<close>

definition export_data ::
  "config \<Rightarrow> (string \<Rightarrow> error + loader) \<Rightarrow> calculator \<Rightarrow> serializer \<Rightarrow> files \<Rightarrow> files \<times> error option" where
  "export_data cfg load_and_process_data generate_comprehensive_report json_dump fs =
     (case load_and_process_data (DATA_PATH cfg) of
        Inl e \<Rightarrow> (fs, Some e)
      | Inr create_sales_dataset \<Rightarrow>
     (case combined_data cfg create_sales_dataset of
        Inl e \<Rightarrow> (fs, Some e)
      | Inr combined \<Rightarrow>
     (case generate_comprehensive_report combined (ANALYSIS_YEAR cfg) (COMPARISON_YEAR cfg) of
        Inl e \<Rightarrow> (fs, Some e)
      | Inr report \<Rightarrow>
          write_all json_dump (OUTPUT_DIR cfg) (export_records cfg combined report) fs)))"

section \<open>What the claims speak of\<close>

text \<open>
  The cell of a row under a column name as a record of the table holds it (boxed), or
  the default when the table has no such column.
\<close>

definition cell_or :: "string list \<Rightarrow> pyval list \<Rightarrow> string \<Rightarrow> pyval \<Rightarrow> pyval" where
  "cell_or cols row c dflt =
     (case column_pos c cols of None \<Rightarrow> dflt | Some j \<Rightarrow> maybe_box_native (row ! j))"

text \<open>
  A KPI scalar as the spec words it: a missing report group counts as an empty mapping
  and a missing field as 0.
\<close>

definition kpi_value :: "(pyval \<times> pyval) list \<Rightarrow> string \<Rightarrow> string \<Rightarrow> pyval" where
  "kpi_value r grp fld =
     (case map_of r (PStr grp) of
        None \<Rightarrow> PInt 0
      | Some g \<Rightarrow> (case g of
          PDict d \<Rightarrow> (case map_of d (PStr fld) of None \<Rightarrow> PInt 0 | Some v \<Rightarrow> v)
        | _ \<Rightarrow> PInt 0))"

fun is_dict :: "pyval \<Rightarrow> bool" where
  "is_dict (PDict d) = True"
| "is_dict v = False"

definition mapping_or_missing :: "(pyval \<times> pyval) list \<Rightarrow> string \<Rightarrow> bool" where
  "mapping_or_missing r grp = (case map_of r (PStr grp) of None \<Rightarrow> True | Some g \<Rightarrow> is_dict g)"

text \<open>The table restricted to the rows that satisfy a predicate, row labels kept.\<close>

definition keep_rows :: "(pyval list \<Rightarrow> bool) \<Rightarrow> frame \<Rightarrow> frame" where
  "keep_rows P f =
     Frame (map fst (filter (\<lambda>p. P (snd p)) (zip (index f) (rows f)))) (columns f)
           (filter P (rows f))"

text \<open>
  The histogram of a score column as the spec words it: the number of rows per score
  value, rows without a score left out.
\<close>

definition score_count :: "pyval list \<Rightarrow> pyval \<Rightarrow> nat" where
  "score_count col k = length (filter (\<lambda>v. \<not> isna v \<and> key_eq v k) col)"

definition histogram_items :: "pyval list \<Rightarrow> (pyval \<times> pyval) list" where
  "histogram_items col =
     map (\<lambda>kc. (maybe_box_native (fst kc), PInt (int (snd kc))))
       (sort_key (\<lambda>kc. - int (snd kc)) (count_groups (filter (\<lambda>v. \<not> isna v) col)))"

subsection \<open>Serializable values and what the normalizer makes of a value\<close>

text \<open>
  The spec's invariant on an export record: a value built only from strings, numbers,
  booleans, null, ordered sequences and mappings whose keys are all strings.
\<close>

fun is_str :: "pyval \<Rightarrow> bool" where
  "is_str (PStr s) = True"
| "is_str v = False"

fun json_value :: "pyval \<Rightarrow> bool" where
  "json_value PNone = True"
| "json_value (PBool b) = True"
| "json_value (PInt i) = True"
| "json_value (PFloat x) = True"
| "json_value (PStr s) = True"
| "json_value (PList xs) = list_all json_value xs"
| "json_value (PTuple xs) = list_all json_value xs"
| "json_value (PDict kvs) = list_all (\<lambda>kv. is_str (fst kv) \<and> json_value (snd kv)) kvs"
| "json_value v = False"


text \<open>
  The values of which \<^verbatim>\<open>to_python_types\<close> makes a serializable value, described by
  how they are built and not by what the function does (that the two agree is proved
  below). The function converts a numpy integer or float, an array, a table and a
  series where it meets one: at the top, as a value of a mapping or as an element of a
  list. A tuple, a key of a mapping, a label of a series and any other object it
  returns as they are, a numpy boolean among them; the cells of a table and the values
  of a series are boxed and not looked into. So: null, booleans, strings, native and
  numpy integers and floats; lists and string-keyed mappings of such values; tuples of
  values that are serializable already; arrays of numpy scalars, of such arrays and of
  serializable values; tables whose cells are numpy scalars or serializable values;
  series with string labels and such cells.
\<close>

fun tolist_ok :: "pyval \<Rightarrow> bool" where
  "tolist_ok (NdArray xs) = list_all tolist_ok xs"
| "tolist_ok (NpInt i) = True"
| "tolist_ok (NpFloat x) = True"
| "tolist_ok (NpBool b) = True"
| "tolist_ok v = json_value v"

fun normalizable :: "pyval \<Rightarrow> bool" where
  "normalizable PNone = True"
| "normalizable (PBool b) = True"
| "normalizable (PInt i) = True"
| "normalizable (PFloat x) = True"
| "normalizable (PStr s) = True"
| "normalizable (NpInt i) = True"
| "normalizable (NpFloat x) = True"
| "normalizable (PList xs) = list_all normalizable xs"
| "normalizable (PTuple xs) = list_all json_value xs"
| "normalizable (PDict kvs) = list_all (\<lambda>kv. is_str (fst kv) \<and> normalizable (snd kv)) kvs"
| "normalizable (NdArray xs) = list_all tolist_ok xs"
| "normalizable (DataFrame f) = list_all (list_all (\<lambda>c. json_value (maybe_box_native c))) (rows f)"
| "normalizable (Series lvs) =
     list_all (\<lambda>lv. is_str (fst lv) \<and> json_value (maybe_box_native (snd lv))) lvs"
| "normalizable v = False"












text \<open>The eight files of a run.\<close>

definition output_names :: "string list" where
  "output_names =
     [''kpi_metrics.json'', ''revenue.json'', ''categories.json'', ''reviews.json'',
      ''geo.json'', ''delivery.json'', ''payments.json'', ''customers.json'']"

subsection \<open>Example inputs\<close>

text \<open>Sixteen categories, as a plain list of mappings and as a table.\<close>

definition category_entry :: "nat \<Rightarrow> pyval" where
  "category_entry n =
     PDict [(PStr ''product_category_name'', PStr ''toys''), (PStr ''total_revenue'', PInt (int n)),
            (PStr ''unique_orders'', PInt 2), (PStr ''items_sold'', PInt 3)]"

definition category_list_report :: pyval where
  "category_list_report =
     PDict [(PStr ''product_performance'',
             PDict [(PStr ''top_categories'', PList (map category_entry [0..<16]))])]"

definition category_table :: frame where
  "category_table =
     Frame (map (\<lambda>n. PInt (int n)) [0..<16]) [''product_category_name'', ''total_revenue'']
           (map (\<lambda>n. [PStr ''toys'', NpInt (int n)]) [0..<16])"

text \<open>A loader over three orders, one per year, that applies the year filter.\<close>

definition example_orders :: frame where
  "example_orders =
     Frame [PInt 0, PInt 1, PInt 2] [''purchase_year'', ''review_score'']
           [[NpInt 2021, NpFloat (Finite 5)], [NpInt 2022, NpFloat NaN], [NpInt 2023, NpFloat (Finite 4)]]"

definition example_loader :: loader where
  "example_loader year_filter month_filter status_filter =
     (case year_filter of
        None \<Rightarrow> Inr example_orders
      | Some y \<Rightarrow> Inr (keep_rows (\<lambda>row. key_eq (row ! 0) (PInt y)) example_orders))"

text \<open>A category entry with its keys renamed.\<close>

definition category_renamed :: "nat \<Rightarrow> pyval" where
  "category_renamed n =
     PDict [(PStr ''category'', PStr ''toys''), (PStr ''revenue'', PInt (int n)),
            (PStr ''orders'', PInt 2), (PStr ''items_sold'', PInt 3)]"

text \<open>A report with three groups, a calculator that returns it, and a serializer.\<close>

definition example_report :: "(pyval \<times> pyval) list" where
  "example_report =
     [(PStr ''revenue_metrics'',
       PDict [(PStr ''total_orders'', NpInt 2), (PStr ''total_revenue'', NpFloat (Finite 150))]),
      (PStr ''monthly_trends'',
       DataFrame (Frame [PInt 0] [''month'', ''revenue'', ''orders''] [[NpInt 1, NpInt 100, NpInt 5]])),
      (PStr ''customer_satisfaction'',
       PDict [(PStr ''avg_review_score'', NpFloat (Finite (9 / 2))), (PStr ''total_reviews'', NpInt 2)])]"

definition example_calculator :: calculator where
  "example_calculator data current_year previous_year = Inr (PDict example_report)"

definition example_dump :: serializer where
  "example_dump v = (case v of PList xs \<Rightarrow> ''[]'' | PDict kvs \<Rightarrow> ''{}'' | _ \<Rightarrow> ''null'', None)"

section \<open>Properties of the Type Normalizer\<close>


lemma dict_setitem_fresh:
  "key_norm k \<notin> key_norm ` fst ` set d \<Longrightarrow> dict_setitem d k v = d @ [(k, v)]"
  by (induction d) (auto simp: key_eq_def)

lemma foldl_dict_setitem_fresh:
  "distinct (map (key_norm \<circ> fst) (d @ items)) \<Longrightarrow>
   foldl (\<lambda>d kv. dict_setitem d (fst kv) (snd kv)) d items = d @ items"
proof (induction items arbitrary: d)
  case Nil
  then show ?case by simp
next
  case (Cons kv items)
  have fresh: "key_norm (fst kv) \<notin> key_norm ` fst ` set d"
    using Cons.prems by auto
  have "distinct (map (key_norm \<circ> fst) ((d @ [kv]) @ items))"
    using Cons.prems by (auto simp: comp_def)
  from Cons.IH [OF this] show ?case
    by (simp add: dict_setitem_fresh [OF fresh])
qed

lemma dict_of_items_distinct:
  "distinct (map (key_norm \<circ> fst) items) \<Longrightarrow> dict_of_items items = items"
  using foldl_dict_setitem_fresh [of "[]" items] by (simp add: dict_of_items_def)

lemma distinct_map_PStr: "distinct cs \<Longrightarrow> distinct (map (key_norm \<circ> PStr) cs)"
  by (simp add: distinct_map inj_on_def)

lemma record_of_row:
  assumes "distinct cs" and "length r = length cs"
  shows "dict_of_items (zip (map PStr cs) (map maybe_box_native r)) =
         zip (map PStr cs) (map maybe_box_native r)"
proof -
  have "map (key_norm \<circ> fst) (zip (map PStr cs) (map maybe_box_native r)) =
        map (key_norm \<circ> PStr) cs"
    using assms(2) by (simp add: map_fst_zip flip: map_map)
  then show ?thesis
    using distinct_map_PStr [OF assms(1)] by (simp add: dict_of_items_distinct)
qed

lemma boxed_not_np_numeric: "\<not> np_numeric (maybe_box_native v)"
  by (cases v) auto

text \<open>
  C1: normalizing a table gives the sequence of its rows, each as the mapping from the
  column names to the cells of that row, in which no value is a numpy integer or float
  any more (a numpy integer cell is the native integer of the same value, a numpy float
  cell the native float); the table with the single row \<open>a = 1, b = 2.5\<close> gives the
  one mapping \<open>{a: 1, b: 2.5}\<close> with native values.
\<close>

theorem to_python_types_table:
  "(wf_frame f \<longrightarrow>
      to_python_types (DataFrame f) =
        PList (map (\<lambda>r. PDict (zip (map PStr (columns f)) (map maybe_box_native r))) (rows f)) \<and>
      (\<exists>ds. to_python_types (DataFrame f) = PList (map PDict ds) \<and>
            length ds = length (rows f) \<and>
            list_all (list_all (\<lambda>kv. \<not> np_numeric (snd kv))) ds)) \<and>
   maybe_box_native (NpInt i) = PInt i \<and> maybe_box_native (NpFloat x) = PFloat x \<and>
   to_python_types (DataFrame (Frame [PInt 0] [''a'', ''b''] [[NpInt 1, NpFloat (Finite (5 / 2))]])) =
     PList [PDict [(PStr ''a'', PInt 1), (PStr ''b'', PFloat (Finite (5 / 2)))]]"
proof -
  have general: "to_python_types (DataFrame f) =
        PList (map (\<lambda>r. PDict (zip (map PStr (columns f)) (map maybe_box_native r))) (rows f))"
    if wf: "wf_frame f"
  proof -
    have "dict_of_items (zip (map PStr (columns f)) (map maybe_box_native r)) =
          zip (map PStr (columns f)) (map maybe_box_native r)" if "r \<in> set (rows f)" for r
      using wf that by (intro record_of_row) (auto simp: wf_frame_def list_all_iff)
    then show ?thesis
      by (simp add: to_dict_records_def)
  qed
  have native: "\<exists>ds. to_python_types (DataFrame f) = PList (map PDict ds) \<and>
            length ds = length (rows f) \<and>
            list_all (list_all (\<lambda>kv. \<not> np_numeric (snd kv))) ds"
    if wf: "wf_frame f"
  proof (intro exI conjI)
    show "to_python_types (DataFrame f) =
      PList (map PDict (map (\<lambda>r. zip (map PStr (columns f)) (map maybe_box_native r)) (rows f)))"
      using general [OF wf] by (simp add: comp_def)
    show "length (map (\<lambda>r. zip (map PStr (columns f)) (map maybe_box_native r)) (rows f)) =
      length (rows f)"
      by simp
    show "list_all (list_all (\<lambda>kv. \<not> np_numeric (snd kv)))
      (map (\<lambda>r. zip (map PStr (columns f)) (map maybe_box_native r)) (rows f))"
      by (auto simp: list_all_iff boxed_not_np_numeric dest!: set_zip_rightD)
  qed
  have example: "to_python_types (DataFrame (Frame [PInt 0] [''a'', ''b''] [[NpInt 1, NpFloat (Finite (5 / 2))]])) =
     PList [PDict [(PStr ''a'', PInt 1), (PStr ''b'', PFloat (Finite (5 / 2)))]]"
    by (simp add: to_dict_records_def dict_of_items_def key_eq_def)
  show ?thesis
    using general native example by simp
qed

theorem to_python_types_table_witness:
  "wf_frame (Frame [PInt 0, PInt 1] [''a'', ''b''] [[NpInt 1, NpFloat (Finite (5 / 2))], [PNone, PStr ''x'']]) \<and>
   to_python_types
     (DataFrame (Frame [PInt 0, PInt 1] [''a'', ''b''] [[NpInt 1, NpFloat (Finite (5 / 2))], [PNone, PStr ''x'']])) =
   PList [PDict [(PStr ''a'', PInt 1), (PStr ''b'', PFloat (Finite (5 / 2)))],
          PDict [(PStr ''a'', PNone), (PStr ''b'', PStr ''x'')]]"
  using to_python_types_table
    [of "Frame [PInt 0, PInt 1] [''a'', ''b''] [[NpInt 1, NpFloat (Finite (5 / 2))], [PNone, PStr ''x'']]"]
  by (simp add: wf_frame_def)

text \<open>
  C10: normalizing a mapping keeps its keys as they are, in their order, whatever
  their type, and normalizes each value; normalizing a list keeps its length and
  normalizes each element in place.
\<close>

theorem to_python_types_dict_list:
  "to_python_types (PDict kvs) = PDict (zip (map fst kvs) (map (to_python_types \<circ> snd) kvs)) \<and>
   (\<exists>kvs'. to_python_types (PDict kvs) = PDict kvs' \<and> map fst kvs' = map fst kvs \<and>
           map snd kvs' = map (to_python_types \<circ> snd) kvs \<and>
           map_of kvs' = map_option to_python_types \<circ> map_of kvs) \<and>
   to_python_types (PList xs) = PList (map to_python_types xs) \<and>
   (\<exists>ys. to_python_types (PList xs) = PList ys \<and> length ys = length xs \<and>
         ys = map to_python_types xs)"
proof -
  have z: "map (\<lambda>kv. (fst kv, to_python_types (snd kv))) kvs =
           zip (map fst kvs) (map (to_python_types \<circ> snd) kvs)"
    by (induction kvs) auto
  have m: "map_of (map (\<lambda>kv. (fst kv, to_python_types (snd kv))) kvs) =
           map_option to_python_types \<circ> map_of kvs"
    by (induction kvs) (auto simp: fun_eq_iff)
  show ?thesis
    using z m by (auto simp: comp_def)
qed

lemma map_of_record:
  "length row = length cs \<Longrightarrow>
   map_of (zip (map PStr cs) (map maybe_box_native row)) (PStr c) =
     map_option (\<lambda>j. maybe_box_native (row ! j)) (column_pos c cs)"
proof (induction cs arbitrary: row)
  case Nil
  then show ?case by simp
next
  case (Cons x cs)
  then obtain v vs where row: "row = v # vs" and len: "length vs = length cs"
    by (cases row) auto
  show ?case
    using Cons.IH [OF len] by (simp add: row option.map_comp comp_def)
qed

lemma dict_get_record:
  assumes "distinct cs" and "length row = length cs"
  shows "dict_get (dict_of_items (zip (map PStr cs) (map maybe_box_native row))) c dflt =
         cell_or cs row c dflt"
  using map_of_record [OF assms(2), of c]
  by (simp add: record_of_row [OF assms] dict_get_def cell_or_def split: option.splits)

lemma monthly_mapped_record:
  assumes "distinct cs" and "length row = length cs"
  shows "monthly_mapped cfg (dict_of_items (zip (map PStr cs) (map maybe_box_native row))) =
     PDict [(PStr ''month'', cell_or cs row ''month'' (PInt 0)),
            (PStr ''revenue'', cell_or cs row ''revenue'' (PInt 0)),
            (PStr ''year'', PInt (ANALYSIS_YEAR cfg)),
            (PStr ''orders'', cell_or cs row ''orders'' (PInt 0))]"
  by (simp add: monthly_mapped_def dict_get_record [OF assms])

section \<open>The monthly revenue rows\<close>

text \<open>
  C2: when the report's \<^verbatim>\<open>monthly_trends\<close> is a table, every row of it becomes a
  mapping with exactly the keys month, revenue, year and orders, in this order; month,
  revenue and orders are the row's cells under these column names (0 when the table
  has no such column) and year is the configured analysis year in every row. For the
  table with the single row month 1, revenue 100, orders 5 and the analysis year 2023
  the script emits month 1, revenue 100, year 2023, orders 5.
\<close>

theorem monthly_data_table:
  "(wf_frame f \<longrightarrow> map_of r (PStr ''monthly_trends'') = Some (DataFrame f) \<longrightarrow>
      monthly_data cfg (PDict r) =
        Inr (PList (map (\<lambda>row.
               PDict [(PStr ''month'', cell_or (columns f) row ''month'' (PInt 0)),
                      (PStr ''revenue'', cell_or (columns f) row ''revenue'' (PInt 0)),
                      (PStr ''year'', PInt (ANALYSIS_YEAR cfg)),
                      (PStr ''orders'', cell_or (columns f) row ''orders'' (PInt 0))])
             (rows f)))) \<and>
   map_sum id to_python_types
     (monthly_data script_config
        (PDict [(PStr ''monthly_trends'',
                 DataFrame (Frame [PInt 0] [''month'', ''revenue'', ''orders'']
                              [[NpInt 1, NpInt 100, NpInt 5]]))])) =
     Inr (PList [PDict [(PStr ''month'', PInt 1), (PStr ''revenue'', PInt 100),
                        (PStr ''year'', PInt 2023), (PStr ''orders'', PInt 5)]])"
proof -
  have general: "monthly_data cfg (PDict r) =
        Inr (PList (map (\<lambda>row.
               PDict [(PStr ''month'', cell_or (columns f) row ''month'' (PInt 0)),
                      (PStr ''revenue'', cell_or (columns f) row ''revenue'' (PInt 0)),
                      (PStr ''year'', PInt (ANALYSIS_YEAR cfg)),
                      (PStr ''orders'', cell_or (columns f) row ''orders'' (PInt 0))])
             (rows f)))"
    if wf: "wf_frame f" and tr: "map_of r (PStr ''monthly_trends'') = Some (DataFrame f)"
  proof -
    have row: "monthly_mapped cfg (dict_of_items (zip (map PStr (columns f)) (map maybe_box_native row))) =
       PDict [(PStr ''month'', cell_or (columns f) row ''month'' (PInt 0)),
              (PStr ''revenue'', cell_or (columns f) row ''revenue'' (PInt 0)),
              (PStr ''year'', PInt (ANALYSIS_YEAR cfg)),
              (PStr ''orders'', cell_or (columns f) row ''orders'' (PInt 0))]"
      if "row \<in> set (rows f)" for row
      using wf that by (intro monthly_mapped_record) (auto simp: wf_frame_def list_all_iff)
    show ?thesis
      using row by (simp add: monthly_data_def err_bind_def dict_get_def tr to_dict_records_def)
  qed
  have example: "map_sum id to_python_types
     (monthly_data script_config
        (PDict [(PStr ''monthly_trends'',
                 DataFrame (Frame [PInt 0] [''month'', ''revenue'', ''orders'']
                              [[NpInt 1, NpInt 100, NpInt 5]]))])) =
     Inr (PList [PDict [(PStr ''month'', PInt 1), (PStr ''revenue'', PInt 100),
                        (PStr ''year'', PInt 2023), (PStr ''orders'', PInt 5)]])"
    by (simp add: monthly_data_def err_bind_def dict_get_def to_dict_records_def
        dict_of_items_def key_eq_def monthly_mapped_def script_config_def)
  show ?thesis using general example by blast
qed

theorem monthly_data_table_witness:
  "wf_frame (Frame [PInt 0, PInt 1] [''month'', ''revenue''] [[NpInt 1, NpFloat (Finite (201 / 2))], [NpInt 2, NpInt 7]]) \<and>
   map_of [(PStr ''monthly_trends'',
            DataFrame (Frame [PInt 0, PInt 1] [''month'', ''revenue'']
                         [[NpInt 1, NpFloat (Finite (201 / 2))], [NpInt 2, NpInt 7]]))]
     (PStr ''monthly_trends'') =
     Some (DataFrame (Frame [PInt 0, PInt 1] [''month'', ''revenue'']
                         [[NpInt 1, NpFloat (Finite (201 / 2))], [NpInt 2, NpInt 7]])) \<and>
   monthly_data script_config
     (PDict [(PStr ''monthly_trends'',
              DataFrame (Frame [PInt 0, PInt 1] [''month'', ''revenue'']
                           [[NpInt 1, NpFloat (Finite (201 / 2))], [NpInt 2, NpInt 7]]))]) =
     Inr (PList [PDict [(PStr ''month'', PInt 1), (PStr ''revenue'', PFloat (Finite (201 / 2))),
                        (PStr ''year'', PInt 2023), (PStr ''orders'', PInt 0)],
                 PDict [(PStr ''month'', PInt 2), (PStr ''revenue'', PInt 7),
                        (PStr ''year'', PInt 2023), (PStr ''orders'', PInt 0)]])"
  using monthly_data_table
    [where f = "Frame [PInt 0, PInt 1] [''month'', ''revenue''] [[NpInt 1, NpFloat (Finite (201 / 2))], [NpInt 2, NpInt 7]]"
       and r = "[(PStr ''monthly_trends'',
           DataFrame (Frame [PInt 0, PInt 1] [''month'', ''revenue'']
                        [[NpInt 1, NpFloat (Finite (201 / 2))], [NpInt 2, NpInt 7]]))]"
       and cfg = script_config]
  by (simp add: wf_frame_def cell_or_def script_config_def)

lemma report_field_mapping:
  "mapping_or_missing r grp \<Longrightarrow> report_field (PDict r) grp fld (PInt 0) = Inr (kpi_value r grp fld)"
  by (cases "map_of r (PStr grp)"; cases "the (map_of r (PStr grp))")
     (auto simp: mapping_or_missing_def report_field_def err_bind_def dict_get_def kpi_value_def
           split: option.splits)

section \<open>The KPI mapping\<close>

text \<open>
  C6: for a report whose revenue, customer and delivery groups are mappings or are
  missing, the KPI export raises nothing and is the mapping of the six named scalars,
  each read from its group's field; a missing group is read as an empty mapping and a
  missing field as 0, so the empty report gives six zeros.
\<close>

theorem kpi_metrics_defaults:
  "(mapping_or_missing r ''revenue_metrics'' \<and> mapping_or_missing r ''customer_metrics'' \<and>
    mapping_or_missing r ''delivery_metrics'' \<longrightarrow>
      kpi_metrics (PDict r) =
        Inr (PDict [(PStr ''total_orders'', kpi_value r ''revenue_metrics'' ''total_orders''),
                    (PStr ''total_revenue'', kpi_value r ''revenue_metrics'' ''total_revenue''),
                    (PStr ''avg_order_value'', kpi_value r ''revenue_metrics'' ''average_order_value''),
                    (PStr ''revenue_growth_pct'', kpi_value r ''revenue_metrics'' ''revenue_growth_pct''),
                    (PStr ''unique_customers'', kpi_value r ''customer_metrics'' ''unique_customers''),
                    (PStr ''fast_delivery_pct'', kpi_value r ''delivery_metrics'' ''fast_delivery_percentage'')])) \<and>
   (map_of r (PStr grp) = None \<longrightarrow> kpi_value r grp fld = PInt 0) \<and>
   (map_of r (PStr grp) = Some (PDict d) \<longrightarrow> map_of d (PStr fld) = None \<longrightarrow> kpi_value r grp fld = PInt 0) \<and>
   (map_of r (PStr grp) = Some (PDict d) \<longrightarrow> map_of d (PStr fld) = Some v \<longrightarrow> kpi_value r grp fld = v) \<and>
   kpi_metrics (PDict []) =
     Inr (PDict [(PStr ''total_orders'', PInt 0), (PStr ''total_revenue'', PInt 0),
                 (PStr ''avg_order_value'', PInt 0), (PStr ''revenue_growth_pct'', PInt 0),
                 (PStr ''unique_customers'', PInt 0), (PStr ''fast_delivery_pct'', PInt 0)])"
proof -
  have empty: "mapping_or_missing [] g" for g
    by (simp add: mapping_or_missing_def)
  have zero: "kpi_value [] g fld' = PInt 0" for g fld'
    by (simp add: kpi_value_def)
  have "kpi_metrics (PDict []) =
     Inr (PDict [(PStr ''total_orders'', PInt 0), (PStr ''total_revenue'', PInt 0),
                 (PStr ''avg_order_value'', PInt 0), (PStr ''revenue_growth_pct'', PInt 0),
                 (PStr ''unique_customers'', PInt 0), (PStr ''fast_delivery_pct'', PInt 0)])"
    unfolding kpi_metrics_def by (simp only: report_field_mapping [OF empty] zero err_bind_def sum.case)
  moreover have "kpi_metrics (PDict r) =
        Inr (PDict [(PStr ''total_orders'', kpi_value r ''revenue_metrics'' ''total_orders''),
                    (PStr ''total_revenue'', kpi_value r ''revenue_metrics'' ''total_revenue''),
                    (PStr ''avg_order_value'', kpi_value r ''revenue_metrics'' ''average_order_value''),
                    (PStr ''revenue_growth_pct'', kpi_value r ''revenue_metrics'' ''revenue_growth_pct''),
                    (PStr ''unique_customers'', kpi_value r ''customer_metrics'' ''unique_customers''),
                    (PStr ''fast_delivery_pct'', kpi_value r ''delivery_metrics'' ''fast_delivery_percentage'')])"
    if "mapping_or_missing r ''revenue_metrics''" "mapping_or_missing r ''customer_metrics''"
       "mapping_or_missing r ''delivery_metrics''"
    unfolding kpi_metrics_def
    by (simp only: report_field_mapping [OF that(1)] report_field_mapping [OF that(2)]
        report_field_mapping [OF that(3)] err_bind_def sum.case)
  ultimately show ?thesis
    by (simp add: kpi_value_def)
qed

theorem kpi_metrics_defaults_witness:
  "mapping_or_missing [(PStr ''revenue_metrics'', PDict [(PStr ''total_orders'', NpInt 10)])] ''revenue_metrics'' \<and>
   mapping_or_missing [(PStr ''revenue_metrics'', PDict [(PStr ''total_orders'', NpInt 10)])] ''customer_metrics'' \<and>
   mapping_or_missing [(PStr ''revenue_metrics'', PDict [(PStr ''total_orders'', NpInt 10)])] ''delivery_metrics'' \<and>
   kpi_metrics (PDict [(PStr ''revenue_metrics'', PDict [(PStr ''total_orders'', NpInt 10)])]) =
     Inr (PDict [(PStr ''total_orders'', NpInt 10), (PStr ''total_revenue'', PInt 0),
                 (PStr ''avg_order_value'', PInt 0), (PStr ''revenue_growth_pct'', PInt 0),
                 (PStr ''unique_customers'', PInt 0), (PStr ''fast_delivery_pct'', PInt 0)])"
proof -
  let ?r = "[(PStr ''revenue_metrics'', PDict [(PStr ''total_orders'', NpInt 10)])]"
  have m: "mapping_or_missing ?r ''revenue_metrics''" "mapping_or_missing ?r ''customer_metrics''"
    "mapping_or_missing ?r ''delivery_metrics''"
    by (simp_all add: mapping_or_missing_def)
  have present: "kpi_value ?r ''revenue_metrics'' ''total_orders'' = NpInt 10"
    using kpi_metrics_defaults
      [where r = ?r and grp = "''revenue_metrics''" and fld = "''total_orders''"
         and d = "[(PStr ''total_orders'', NpInt 10)]" and v = "NpInt 10"]
    by simp
  have field: "kpi_value ?r ''revenue_metrics'' fld = PInt 0" if "fld \<noteq> ''total_orders''" for fld
    using that kpi_metrics_defaults
      [where r = ?r and grp = "''revenue_metrics''" and fld = fld
         and d = "[(PStr ''total_orders'', NpInt 10)]"]
    by simp
  have grp: "kpi_value ?r ''customer_metrics'' fld = PInt 0"
    "kpi_value ?r ''delivery_metrics'' fld = PInt 0" for fld
    using kpi_metrics_defaults [where r = ?r and grp = "''customer_metrics''" and fld = fld]
      kpi_metrics_defaults [where r = ?r and grp = "''delivery_metrics''" and fld = fld]
    by simp_all
  show ?thesis
    using m kpi_metrics_defaults [where r = ?r] present field grp by simp
qed

section \<open>Monthly trends that are not a table\<close>



lemma categories_mapped_record:
  assumes "distinct cs" and "length row = length cs"
  shows "categories_mapped (dict_of_items (zip (map PStr cs) (map maybe_box_native row))) =
     PDict [(PStr ''category'', cell_or cs row ''product_category_name'' (PStr [])),
            (PStr ''revenue'', cell_or cs row ''total_revenue'' (PInt 0)),
            (PStr ''orders'', cell_or cs row ''unique_orders'' (PInt 0)),
            (PStr ''items_sold'', cell_or cs row ''items_sold'' (PInt 0))]"
  by (simp add: categories_mapped_def dict_get_record [OF assms])

section \<open>The category rows\<close>

text \<open>
  C3, as amended: when \<^verbatim>\<open>top_categories\<close> is a table, the export is made of its
  first 15 rows (all of them when there are fewer) in the table's order, each renamed:
  \<^verbatim>\<open>product_category_name\<close> to category, \<^verbatim>\<open>total_revenue\<close> to revenue,
  \<^verbatim>\<open>unique_orders\<close> to orders, \<^verbatim>\<open>items_sold\<close> kept. When it is a plain list,
  the export is its first 15 entries in order, as they are, with no key renamed.
\<close>

theorem categories_data_first_15:
  "(wf_frame f \<longrightarrow> map_of r (PStr ''product_performance'') = Some (PDict p) \<longrightarrow>
    map_of p (PStr ''top_categories'') = Some (DataFrame f) \<longrightarrow>
      (\<exists>ys. categories_data (PDict r) = Inr (PList ys) \<and>
            ys = map (\<lambda>row.
                   PDict [(PStr ''category'', cell_or (columns f) row ''product_category_name'' (PStr [])),
                          (PStr ''revenue'', cell_or (columns f) row ''total_revenue'' (PInt 0)),
                          (PStr ''orders'', cell_or (columns f) row ''unique_orders'' (PInt 0)),
                          (PStr ''items_sold'', cell_or (columns f) row ''items_sold'' (PInt 0))])
                 (take 15 (rows f)) \<and>
            length ys = min 15 (length (rows f)))) \<and>
   (map_of r (PStr ''product_performance'') = Some (PDict p) \<longrightarrow>
    map_of p (PStr ''top_categories'') = Some (PList xs) \<longrightarrow>
      categories_data (PDict r) = Inr (PList (take 15 xs)) \<and>
      length (take 15 xs) = min 15 (length xs))"
proof -
  have table: "categories_data (PDict r) = Inr (PList (map (\<lambda>row.
                   PDict [(PStr ''category'', cell_or (columns f) row ''product_category_name'' (PStr [])),
                          (PStr ''revenue'', cell_or (columns f) row ''total_revenue'' (PInt 0)),
                          (PStr ''orders'', cell_or (columns f) row ''unique_orders'' (PInt 0)),
                          (PStr ''items_sold'', cell_or (columns f) row ''items_sold'' (PInt 0))])
                 (take 15 (rows f))))"
    if wf: "wf_frame f" and pp: "map_of r (PStr ''product_performance'') = Some (PDict p)"
      and tc: "map_of p (PStr ''top_categories'') = Some (DataFrame f)"
  proof -
    have row: "categories_mapped (dict_of_items (zip (map PStr (columns f)) (map maybe_box_native row))) =
       PDict [(PStr ''category'', cell_or (columns f) row ''product_category_name'' (PStr [])),
              (PStr ''revenue'', cell_or (columns f) row ''total_revenue'' (PInt 0)),
              (PStr ''orders'', cell_or (columns f) row ''unique_orders'' (PInt 0)),
              (PStr ''items_sold'', cell_or (columns f) row ''items_sold'' (PInt 0))]"
      if "row \<in> set (take 15 (rows f))" for row
      using wf in_set_takeD [OF that]
      by (intro categories_mapped_record) (auto simp: wf_frame_def list_all_iff)
    show ?thesis
      using row
      by (simp add: categories_data_def err_bind_def dict_get_def pp tc to_dict_records_def head_def)
  qed
  have plain: "categories_data (PDict r) = Inr (PList (take 15 xs))"
    if "map_of r (PStr ''product_performance'') = Some (PDict p)"
      and "map_of p (PStr ''top_categories'') = Some (PList xs)"
    using that by (simp add: categories_data_def err_bind_def dict_get_def)
  show ?thesis
    using table plain by (auto simp: min_def)
qed

theorem categories_data_first_15_witness:
  "wf_frame category_table \<and>
   categories_data
     (PDict [(PStr ''product_performance'',
              PDict [(PStr ''top_categories'', DataFrame category_table)])]) =
     Inr (PList (map (\<lambda>n. PDict [(PStr ''category'', PStr ''toys''), (PStr ''revenue'', PInt (int n)),
                                 (PStr ''orders'', PInt 0), (PStr ''items_sold'', PInt 0)]) [0..<15])) \<and>
   categories_data category_list_report = Inr (PList (map category_entry [0..<15]))"
proof -
  have wf: "wf_frame category_table"
    by (simp add: wf_frame_def category_table_def list_all_iff)
  have t: "take 15 (map g [0..<16]) = map g [0..<15]" for g :: "nat \<Rightarrow> 'a"
    by (simp add: take_map)
  have table: "categories_data
     (PDict [(PStr ''product_performance'',
              PDict [(PStr ''top_categories'', DataFrame category_table)])]) =
     Inr (PList (map (\<lambda>n. PDict [(PStr ''category'', PStr ''toys''), (PStr ''revenue'', PInt (int n)),
                                 (PStr ''orders'', PInt 0), (PStr ''items_sold'', PInt 0)]) [0..<15]))"
    using wf categories_data_first_15
      [where f = category_table
         and r = "[(PStr ''product_performance'', PDict [(PStr ''top_categories'', DataFrame category_table)])]"
         and p = "[(PStr ''top_categories'', DataFrame category_table)]" and xs = "[]"]
    by (simp add: category_table_def t cell_or_def comp_def)
  have plain: "categories_data category_list_report = Inr (PList (map category_entry [0..<15]))"
    using categories_data_first_15
      [where f = category_table
         and r = "[(PStr ''product_performance'',
             PDict [(PStr ''top_categories'', PList (map category_entry [0..<16]))])]"
         and p = "[(PStr ''top_categories'', PList (map category_entry [0..<16]))]"
         and xs = "map category_entry [0..<16]"]
    by (simp add: category_list_report_def t)
  show ?thesis using wf table plain by simp
qed

text \<open>
  C3 as stated fails on a plain list: of sixteen category mappings the first fifteen
  are exported with their keys \<^verbatim>\<open>product_category_name\<close>, \<^verbatim>\<open>total_revenue\<close> and
  \<^verbatim>\<open>unique_orders\<close> unchanged.
\<close>

theorem categories_data_list_counterexample:
  "categories_data category_list_report = Inr (PList (map category_entry [0..<15])) \<and>
   category_entry 0 =
     PDict [(PStr ''product_category_name'', PStr ''toys''), (PStr ''total_revenue'', PInt 0),
            (PStr ''unique_orders'', PInt 2), (PStr ''items_sold'', PInt 3)] \<and>
   categories_data category_list_report \<noteq> Inr (PList (map category_renamed [0..<15]))"
proof -
  have t: "take 15 (map category_entry [0..<16]) = map category_entry [0..<15]"
    by (simp add: take_map)
  have run: "categories_data category_list_report = Inr (PList (map category_entry [0..<15]))"
    by (simp add: categories_data_def category_list_report_def err_bind_def dict_get_def t)
  have "map category_entry [0..<15] \<noteq> map category_renamed [0..<15]"
  proof
    assume "map category_entry [0..<15] = map category_renamed [0..<15]"
    then have "category_entry 0 = category_renamed 0"
      by (simp add: upt_conv_Cons)
    then show False by (simp add: category_entry_def category_renamed_def)
  qed
  with run show ?thesis by (simp add: category_entry_def)
qed

lemma mask_rows: "map fst (filter snd (zip ys (map P ys))) = filter P ys"
  by (induction ys) auto

lemma mask_index:
  "length xs = length ys \<Longrightarrow>
   map fst (filter snd (zip xs (map P ys))) = map fst (filter (\<lambda>p. P (snd p)) (zip xs ys))"
  by (induction xs ys rule: list_induct2) auto

lemma mask_values:
  "length xs = length ys \<Longrightarrow>
   map (\<lambda>lv. Q (snd lv)) (zip xs (map g ys)) = map (\<lambda>r. Q (g r)) ys"
  by (induction xs ys rule: list_induct2) auto

lemma getitem_mask_column:
  assumes "length (index f) = length (rows f)"
  shows "getitem_mask f (map (\<lambda>lv. Q (snd lv)) (zip (index f) (map (\<lambda>r. r ! j) (rows f)))) =
         keep_rows (\<lambda>r. Q (r ! j)) f"
proof -
  have m: "map (\<lambda>lv. Q (snd lv)) (zip (index f) (map (\<lambda>r. r ! j) (rows f))) =
           map (\<lambda>r. Q (r ! j)) (rows f)"
    using mask_values [OF assms] .
  show ?thesis
    unfolding m getitem_mask_def keep_rows_def
    by (simp add: mask_rows mask_index [OF assms])
qed

section \<open>The combined dataset\<close>

text \<open>
  C5: when no comparison year is configured (the constant is \<^verbatim>\<open>None\<close>, or 0, which
  Python's \<^verbatim>\<open>if\<close> reads as unset), the combined dataset is the primary dataset, the
  loader's answer for the analysis year, the month and the status delivered. When a
  comparison year is configured and the loader answers, the combined dataset is the
  loader's answer without a year filter (same month and status) restricted to the rows
  whose purchase year is the analysis year or the comparison year.
\<close>

theorem combined_data_cases:
  "(COMPARISON_YEAR cfg = None \<or> COMPARISON_YEAR cfg = Some 0 \<longrightarrow>
      combined_data cfg create_sales_dataset =
        create_sales_dataset (Some (ANALYSIS_YEAR cfg)) (ANALYSIS_MONTH cfg) ''delivered'') \<and>
   (COMPARISON_YEAR cfg = Some cy \<longrightarrow> cy \<noteq> 0 \<longrightarrow>
    create_sales_dataset (Some (ANALYSIS_YEAR cfg)) (ANALYSIS_MONTH cfg) ''delivered'' = Inr s \<longrightarrow>
    create_sales_dataset (Some cy) (ANALYSIS_MONTH cfg) ''delivered'' = Inr c \<longrightarrow>
    create_sales_dataset None (ANALYSIS_MONTH cfg) ''delivered'' = Inr u \<longrightarrow>
    length (index u) = length (rows u) \<longrightarrow>
    column_pos ''purchase_year'' (columns u) = Some j \<longrightarrow>
      combined_data cfg create_sales_dataset =
        Inr (keep_rows (\<lambda>row. key_eq (row ! j) (PInt (ANALYSIS_YEAR cfg)) \<or>
                               key_eq (row ! j) (PInt cy)) u))"
proof -
  have unset: "combined_data cfg create_sales_dataset =
        create_sales_dataset (Some (ANALYSIS_YEAR cfg)) (ANALYSIS_MONTH cfg) ''delivered''"
    if "\<not> truthy (COMPARISON_YEAR cfg)"
    using that by (simp add: combined_data_def err_bind_def split: sum.splits)
  have set: "combined_data cfg create_sales_dataset =
        Inr (keep_rows (\<lambda>row. key_eq (row ! j) (PInt (ANALYSIS_YEAR cfg)) \<or>
                               key_eq (row ! j) (PInt cy)) u)"
    if cy: "COMPARISON_YEAR cfg = Some cy" "cy \<noteq> 0"
      and s: "create_sales_dataset (Some (ANALYSIS_YEAR cfg)) (ANALYSIS_MONTH cfg) ''delivered'' = Inr s"
      and c: "create_sales_dataset (Some cy) (ANALYSIS_MONTH cfg) ''delivered'' = Inr c"
      and u: "create_sales_dataset None (ANALYSIS_MONTH cfg) ''delivered'' = Inr u"
      and len: "length (index u) = length (rows u)"
      and j: "column_pos ''purchase_year'' (columns u) = Some j"
  proof -
    have "combined_data cfg create_sales_dataset =
          Inr (getitem_mask u (isin (zip (index u) (map (\<lambda>r. r ! j) (rows u)))
                 [PInt (ANALYSIS_YEAR cfg), PInt cy]))"
      by (simp add: combined_data_def err_bind_def cy s c u j truthy_def opt_int_def
          getitem_column_def)
    also have "isin (zip (index u) (map (\<lambda>r. r ! j) (rows u))) [PInt (ANALYSIS_YEAR cfg), PInt cy] =
       map (\<lambda>lv. key_eq (snd lv) (PInt (ANALYSIS_YEAR cfg)) \<or> key_eq (snd lv) (PInt cy))
         (zip (index u) (map (\<lambda>r. r ! j) (rows u)))"
      by (simp add: isin_def)
    finally show ?thesis
      by (simp only: getitem_mask_column
          [OF len, of "\<lambda>v. key_eq v (PInt (ANALYSIS_YEAR cfg)) \<or> key_eq v (PInt cy)" j])
  qed
  show ?thesis
    using unset set by (auto simp: truthy_def)
qed

theorem combined_data_cases_witness:
  "COMPARISON_YEAR (script_config\<lparr>COMPARISON_YEAR := None\<rparr>) = None \<and>
   combined_data (script_config\<lparr>COMPARISON_YEAR := None\<rparr>) example_loader =
     Inr (Frame [PInt 2] [''purchase_year'', ''review_score''] [[NpInt 2023, NpFloat (Finite 4)]]) \<and>
   COMPARISON_YEAR script_config = Some 2022 \<and>
   example_loader None (ANALYSIS_MONTH script_config) ''delivered'' = Inr example_orders \<and>
   column_pos ''purchase_year'' (columns example_orders) = Some 0 \<and>
   combined_data script_config example_loader =
     Inr (Frame [PInt 1, PInt 2] [''purchase_year'', ''review_score'']
            [[NpInt 2022, NpFloat NaN], [NpInt 2023, NpFloat (Finite 4)]])"
proof -
  have unset: "combined_data (script_config\<lparr>COMPARISON_YEAR := None\<rparr>) example_loader =
     Inr (Frame [PInt 2] [''purchase_year'', ''review_score''] [[NpInt 2023, NpFloat (Finite 4)]])"
    using combined_data_cases [where cfg = "script_config\<lparr>COMPARISON_YEAR := None\<rparr>"
        and create_sales_dataset = example_loader]
    by (simp add: script_config_def example_loader_def example_orders_def keep_rows_def key_eq_def)
  have both: "combined_data script_config example_loader =
     Inr (Frame [PInt 1, PInt 2] [''purchase_year'', ''review_score'']
            [[NpInt 2022, NpFloat NaN], [NpInt 2023, NpFloat (Finite 4)]])"
    using combined_data_cases
      [where cfg = script_config and cy = 2022 and create_sales_dataset = example_loader
         and s = "keep_rows (\<lambda>row. key_eq (row ! 0) (PInt 2023)) example_orders"
         and c = "keep_rows (\<lambda>row. key_eq (row ! 0) (PInt 2022)) example_orders"
         and u = example_orders and j = 0]
    by (simp add: script_config_def example_loader_def example_orders_def keep_rows_def key_eq_def)
  show ?thesis
    using unset both
    by (simp add: script_config_def example_loader_def example_orders_def)
qed

lemma key_norm_box [simp]: "key_norm (maybe_box_native v) = key_norm v"
  by (cases v) auto

lemma isna_key_norm: "isna (key_norm v) = isna v"
  by (cases v) auto

lemma isna_box [simp]: "isna (maybe_box_native v) = isna v"
  by (cases v) auto

lemma count_groups_keys: "fst ` set (count_groups vs) \<subseteq> set vs"
  by (induction vs rule: count_groups.induct) auto

lemma count_groups_cover: "v \<in> set vs \<Longrightarrow> \<exists>k \<in> fst ` set (count_groups vs). key_eq k v"
proof (induction vs rule: count_groups.induct)
  case 1
  then show ?case by simp
next
  case (2 x xs)
  show ?case
  proof (cases "key_eq x v")
    case True
    then show ?thesis by simp
  next
    case False
    with "2.prems" have "v \<in> set (filter (\<lambda>y. \<not> key_eq x y) xs)"
      by (auto simp: key_eq_def)
    from "2.IH" [OF this] show ?thesis by auto
  qed
qed

lemma count_groups_distinct: "distinct (map (key_norm \<circ> fst) (count_groups vs))"
proof (induction vs rule: count_groups.induct)
  case 1
  then show ?case by simp
next
  case (2 x xs)
  have "key_norm x \<noteq> key_norm k" if "k \<in> fst ` set (count_groups (filter (\<lambda>y. \<not> key_eq x y) xs))" for k
    using count_groups_keys [of "filter (\<lambda>y. \<not> key_eq x y) xs"] that
    by (auto simp: key_eq_def)
  with "2.IH" show ?case by (auto simp: image_iff)
qed

lemma count_groups_count:
  "(k, n) \<in> set (count_groups vs) \<Longrightarrow> n = length (filter (\<lambda>v. key_eq v k) vs)"
proof (induction vs rule: count_groups.induct)
  case 1
  then show ?case by simp
next
  case (2 x xs)
  from "2.prems" consider
      (first) "k = x" "n = Suc (length (filter (key_eq x) xs))"
    | (later) "(k, n) \<in> set (count_groups (filter (\<lambda>y. \<not> key_eq x y) xs))"
    by auto
  then show ?case
  proof cases
    case first
    have "filter (key_eq x) xs = filter (\<lambda>v. key_eq v x) xs"
      by (rule filter_cong) (auto simp: key_eq_def)
    with first show ?thesis by (simp add: key_eq_def)
  next
    case later
    then have "k \<in> set (filter (\<lambda>y. \<not> key_eq x y) xs)"
      using count_groups_keys [of "filter (\<lambda>y. \<not> key_eq x y) xs"] by force
    then have nk: "\<not> key_eq x k" by simp
    have "filter (\<lambda>v. key_eq v k) (filter (\<lambda>y. \<not> key_eq x y) xs) = filter (\<lambda>v. key_eq v k) xs"
      using nk by (auto simp: key_eq_def intro: filter_cong)
    with "2.IH" [OF later] nk show ?thesis by simp
  qed
qed

lemma keep_rows_column:
  assumes "length (index f) = length (rows f)"
  shows "map snd (zip (index (keep_rows P f)) (map g (rows (keep_rows P f)))) =
         map g (filter P (rows f))"
proof -
  have "length (map fst (filter (\<lambda>p. P (snd p)) (zip xs ys))) = length (filter P ys)"
    if "length xs = length ys" for xs :: "pyval list" and ys
    using that by (induction xs ys rule: list_induct2) auto
  from this [OF assms] show ?thesis
    by (simp add: keep_rows_def map_snd_zip)
qed

lemma histogram_items_distinct: "distinct (map (key_norm \<circ> fst) (histogram_items col))"
proof -
  let ?gs = "count_groups (filter (\<lambda>v. \<not> isna v) col)"
  have "distinct (map (key_norm \<circ> fst) (sort_key (\<lambda>kc. - int (snd kc)) ?gs))"
    using count_groups_distinct [of "filter (\<lambda>v. \<not> isna v) col"]
    by (simp add: distinct_map)
  then show ?thesis
    by (simp add: histogram_items_def comp_def)
qed

lemma score_counts_eq:
  assumes len: "length (index f) = length (rows f)"
    and j: "column_pos ''review_score'' (columns f) = Some j"
  shows "score_counts f = Inr (PDict (histogram_items (map (\<lambda>r. r ! j) (rows f))))"
proof -
  let ?col = "map (\<lambda>r. r ! j) (rows f)"
  let ?kept = "keep_rows (\<lambda>r. \<not> isna (r ! j)) f"
  have masked: "getitem_mask f (notna (zip (index f) ?col)) = ?kept"
    unfolding notna_def by (rule getitem_mask_column [OF len, of "\<lambda>v. \<not> isna v" j])
  have cols: "columns ?kept = columns f"
    by (simp add: keep_rows_def)
  have vals: "map snd (zip (index ?kept) (map (\<lambda>r. r ! j) (rows ?kept))) = filter (\<lambda>v. \<not> isna v) ?col"
    by (simp add: keep_rows_column [OF len] filter_map comp_def)
  have vc: "value_counts (zip (index ?kept) (map (\<lambda>r. r ! j) (rows ?kept))) =
      map (\<lambda>kc. (maybe_box_native (fst kc), NpInt (int (snd kc))))
       (sort_key (\<lambda>kc. - int (snd kc)) (count_groups (filter (\<lambda>v. \<not> isna v) ?col)))"
    unfolding value_counts_def vals by simp
  have boxed: "map (\<lambda>lv. (fst lv, maybe_box_native (snd lv)))
       (value_counts (zip (index ?kept) (map (\<lambda>r. r ! j) (rows ?kept)))) = histogram_items ?col"
    unfolding vc histogram_items_def by (simp add: comp_def)
  have "series_to_dict (value_counts (zip (index ?kept) (map (\<lambda>r. r ! j) (rows ?kept)))) =
        histogram_items ?col"
    unfolding series_to_dict_def boxed
    by (rule dict_of_items_distinct [OF histogram_items_distinct])
  then show ?thesis
    by (simp add: score_counts_def err_bind_def getitem_column_def j masked cols)
qed

lemma histogram_items_count:
  assumes "(k, c) \<in> set (histogram_items col)"
  shows "c = PInt (int (score_count col k)) \<and> \<not> isna k \<and>
         (\<exists>v \<in> set col. \<not> isna v \<and> k = maybe_box_native v)"
proof -
  from assms obtain k' n where kn: "(k', n) \<in> set (count_groups (filter (\<lambda>v. \<not> isna v) col))"
    and k: "k = maybe_box_native k'" and c: "c = PInt (int n)"
    by (auto simp: histogram_items_def)
  have n: "n = length (filter (\<lambda>v. key_eq v k') (filter (\<lambda>v. \<not> isna v) col))"
    using count_groups_count [OF kn] .
  have mem: "k' \<in> set (filter (\<lambda>v. \<not> isna v) col)"
    using count_groups_keys [of "filter (\<lambda>v. \<not> isna v) col"] kn by force
  have "key_eq v k = key_eq v k'" for v
    by (simp add: key_eq_def k)
  then have "score_count col k = n"
    by (simp add: score_count_def n conj_commute)
  with c k mem show ?thesis by auto
qed

lemma histogram_items_cover:
  assumes "v \<in> set col" and "\<not> isna v"
  shows "\<exists>k \<in> fst ` set (histogram_items col). key_eq k v"
proof -
  from assms have "v \<in> set (filter (\<lambda>v. \<not> isna v) col)" by simp
  from count_groups_cover [OF this] obtain k' where
    "k' \<in> fst ` set (count_groups (filter (\<lambda>v. \<not> isna v) col))" and "key_eq k' v"
    by blast
  then have "maybe_box_native k' \<in> fst ` set (histogram_items col)" and "key_eq (maybe_box_native k') v"
    by (auto simp: histogram_items_def key_eq_def image_iff)
  then show ?thesis by blast
qed

lemma histogram_items_normal:
  "map (\<lambda>kv. (fst kv, to_python_types (snd kv))) (histogram_items col) = histogram_items col"
  by (simp add: histogram_items_def comp_def)

lemma py_get_mapping_or_missing:
  "mapping_or_missing r grp \<Longrightarrow> \<exists>d. py_get (PDict r) grp (PDict []) = Inr (PDict d)"
  by (cases "map_of r (PStr grp)"; cases "the (map_of r (PStr grp))")
     (auto simp: mapping_or_missing_def dict_get_def)

section \<open>The review score histogram\<close>

text \<open>
  C4: the \<^verbatim>\<open>score_counts\<close> field of the reviews export is computed from the
  \<^verbatim>\<open>review_score\<close> column of the combined dataset alone: its keys are the distinct
  scores of the column, none of them missing, every row with a score is counted under
  one key, and the value at a key is the number of rows with that score, rows without
  a score left out. For the column 5, 5, 4, 3, missing it is \<open>{5: 2, 4: 1, 3: 1}\<close>.
\<close>

theorem score_counts_histogram:
  "(length (index f) = length (rows f) \<longrightarrow> column_pos ''review_score'' (columns f) = Some j \<longrightarrow>
    mapping_or_missing r ''customer_satisfaction'' \<longrightarrow>
      (\<exists>h e. score_counts f = Inr (PDict h) \<and>
         reviews_export f (PDict r) = Inr e \<and>
         py_get (to_python_types e) ''score_counts'' PNone = Inr (PDict h) \<and>
         distinct (map (key_norm \<circ> fst) h) \<and>
         list_all (\<lambda>kc. snd kc = PInt (int (score_count (map (\<lambda>row. row ! j) (rows f)) (fst kc))) \<and>
                        \<not> isna (fst kc)) h \<and>
         list_all (\<lambda>row. isna (row ! j) \<or> list_ex (\<lambda>kc. key_eq (fst kc) (row ! j)) h) (rows f))) \<and>
   score_counts (Frame [PInt 0, PInt 1, PInt 2, PInt 3, PInt 4] [''review_score'']
       [[NpFloat (Finite 5)], [NpFloat (Finite 5)], [NpFloat (Finite 4)], [NpFloat (Finite 3)],
        [NpFloat NaN]]) =
     Inr (PDict [(PFloat (Finite 5), PInt 2), (PFloat (Finite 4), PInt 1), (PFloat (Finite 3), PInt 1)]) \<and>
   score_counts (Frame [PInt 0, PInt 1, PInt 2, PInt 3, PInt 4] [''review_score'']
       [[PInt 5], [PInt 5], [PInt 4], [PInt 3], [PNone]]) =
     Inr (PDict [(PInt 5, PInt 2), (PInt 4, PInt 1), (PInt 3, PInt 1)])"
proof -
  have general: "\<exists>h e. score_counts f = Inr (PDict h) \<and>
         reviews_export f (PDict r) = Inr e \<and>
         py_get (to_python_types e) ''score_counts'' PNone = Inr (PDict h) \<and>
         distinct (map (key_norm \<circ> fst) h) \<and>
         list_all (\<lambda>kc. snd kc = PInt (int (score_count (map (\<lambda>row. row ! j) (rows f)) (fst kc))) \<and>
                        \<not> isna (fst kc)) h \<and>
         list_all (\<lambda>row. isna (row ! j) \<or> list_ex (\<lambda>kc. key_eq (fst kc) (row ! j)) h) (rows f)"
    if len: "length (index f) = length (rows f)"
      and j: "column_pos ''review_score'' (columns f) = Some j"
      and cs: "mapping_or_missing r ''customer_satisfaction''"
  proof -
    let ?col = "map (\<lambda>row. row ! j) (rows f)"
    let ?h = "histogram_items ?col"
    from py_get_mapping_or_missing [OF cs] obtain d where
      d: "py_get (PDict r) ''customer_satisfaction'' (PDict []) = Inr (PDict d)" by blast
    let ?e = "PDict [(PStr ''score_counts'', PDict ?h),
                 (PStr ''average_score'', dict_get d ''avg_review_score'' (PInt 0)),
                 (PStr ''total_reviews'', dict_get d ''total_reviews'' (PInt 0)),
                 (PStr ''score_5_percentage'', dict_get d ''score_5_percentage'' (PInt 0)),
                 (PStr ''score_4_plus_percentage'', dict_get d ''score_4_plus_percentage'' (PInt 0))]"
    have sc: "score_counts f = Inr (PDict ?h)"
      by (rule score_counts_eq [OF len j])
    have e: "reviews_export f (PDict r) = Inr ?e"
      unfolding reviews_export_def d sc by (simp add: err_bind_def)
    have g: "py_get (to_python_types ?e) ''score_counts'' PNone = Inr (PDict ?h)"
      by (simp add: dict_get_def histogram_items_normal)
    have counts: "list_all (\<lambda>kc. snd kc = PInt (int (score_count ?col (fst kc))) \<and> \<not> isna (fst kc)) ?h"
      using histogram_items_count [of _ _ ?col] by (auto simp: list_all_iff)
    have cover: "list_all (\<lambda>row. isna (row ! j) \<or> list_ex (\<lambda>kc. key_eq (fst kc) (row ! j)) ?h) (rows f)"
      unfolding list_all_iff list_ex_iff
    proof (intro ballI)
      fix row assume "row \<in> set (rows f)"
      then have "row ! j \<in> set ?col" by simp
      from histogram_items_cover [OF this] show "isna (row ! j) \<or> (\<exists>kc\<in>set ?h. key_eq (fst kc) (row ! j))"
        by auto
    qed
    show ?thesis
      using sc e g histogram_items_distinct [of ?col] counts cover by blast
  qed
  have ex1: "score_counts (Frame [PInt 0, PInt 1, PInt 2, PInt 3, PInt 4] [''review_score'']
       [[NpFloat (Finite 5)], [NpFloat (Finite 5)], [NpFloat (Finite 4)], [NpFloat (Finite 3)],
        [NpFloat NaN]]) =
     Inr (PDict [(PFloat (Finite 5), PInt 2), (PFloat (Finite 4), PInt 1), (PFloat (Finite 3), PInt 1)])"
    by (simp add: score_counts_def err_bind_def getitem_column_def getitem_mask_def notna_def
        value_counts_def series_to_dict_def dict_of_items_def key_eq_def)
  have ex2: "score_counts (Frame [PInt 0, PInt 1, PInt 2, PInt 3, PInt 4] [''review_score'']
       [[PInt 5], [PInt 5], [PInt 4], [PInt 3], [PNone]]) =
     Inr (PDict [(PInt 5, PInt 2), (PInt 4, PInt 1), (PInt 3, PInt 1)])"
    by (simp add: score_counts_def err_bind_def getitem_column_def getitem_mask_def notna_def
        value_counts_def series_to_dict_def dict_of_items_def key_eq_def)
  show ?thesis
    using general ex1 ex2 by blast
qed

theorem score_counts_histogram_witness:
  "length (index example_orders) = length (rows example_orders) \<and>
   column_pos ''review_score'' (columns example_orders) = Some 1 \<and>
   mapping_or_missing [] ''customer_satisfaction'' \<and>
   score_counts example_orders = Inr (PDict [(PFloat (Finite 5), PInt 1), (PFloat (Finite 4), PInt 1)]) \<and>
   (\<exists>h e. score_counts example_orders = Inr (PDict h) \<and>
      reviews_export example_orders (PDict []) = Inr e \<and>
      py_get (to_python_types e) ''score_counts'' PNone = Inr (PDict h) \<and>
      distinct (map (key_norm \<circ> fst) h) \<and>
      list_all (\<lambda>kc. snd kc = PInt (int (score_count (map (\<lambda>row. row ! 1) (rows example_orders)) (fst kc))) \<and>
                     \<not> isna (fst kc)) h \<and>
      list_all (\<lambda>row. isna (row ! 1) \<or> list_ex (\<lambda>kc. key_eq (fst kc) (row ! 1)) h) (rows example_orders))"
proof -
  have a: "length (index example_orders) = length (rows example_orders)"
    by (simp add: example_orders_def)
  have b: "column_pos ''review_score'' (columns example_orders) = Some 1"
    by (simp add: example_orders_def)
  have c: "mapping_or_missing [] ''customer_satisfaction''"
    by (simp add: mapping_or_missing_def)
  have d: "score_counts example_orders =
      Inr (PDict [(PFloat (Finite 5), PInt 1), (PFloat (Finite 4), PInt 1)])"
    by (simp add: score_counts_def err_bind_def getitem_column_def getitem_mask_def notna_def
        value_counts_def series_to_dict_def dict_of_items_def key_eq_def example_orders_def)
  show ?thesis
    using a b c d score_counts_histogram [where f = example_orders and j = 1 and r = "[]"] by blast
qed

section \<open>Serializable export records\<close>


lemma tolist_json: "json_value (tolist v) = tolist_ok v"
  by (induction v rule: tolist.induct) (auto simp: list_all_iff)

lemma dict_setitem_all:
  "list_all (\<lambda>kv. A (fst kv) \<and> B (snd kv)) d \<Longrightarrow> A k \<Longrightarrow> B v \<Longrightarrow>
   list_all (\<lambda>kv. A (fst kv) \<and> B (snd kv)) (dict_setitem d k v)"
  by (induction d) auto

lemma foldl_dict_setitem_all:
  "list_all (\<lambda>kv. A (fst kv) \<and> B (snd kv)) d \<Longrightarrow>
   list_all (\<lambda>kv. A (fst kv) \<and> B (snd kv)) items \<Longrightarrow>
   list_all (\<lambda>kv. A (fst kv) \<and> B (snd kv))
     (foldl (\<lambda>d kv. dict_setitem d (fst kv) (snd kv)) d items)"
  by (induction items arbitrary: d) (auto simp: dict_setitem_all)

lemma dict_of_items_all:
  "list_all (\<lambda>kv. A (fst kv) \<and> B (snd kv)) items \<Longrightarrow>
   list_all (\<lambda>kv. A (fst kv) \<and> B (snd kv)) (dict_of_items items)"
  unfolding dict_of_items_def by (rule foldl_dict_setitem_all) auto

lemma record_json_items:
  assumes "list_all (\<lambda>c. json_value (maybe_box_native c)) row"
  shows "list_all (\<lambda>kv. is_str (fst kv) \<and> json_value (snd kv))
           (dict_of_items (zip (map PStr cs) (map maybe_box_native row)))"
proof (rule dict_of_items_all)
  show "list_all (\<lambda>kv. is_str (fst kv) \<and> json_value (snd kv))
          (zip (map PStr cs) (map maybe_box_native row))"
    unfolding list_all_iff
  proof (intro ballI conjI)
    fix kv assume kv: "kv \<in> set (zip (map PStr cs) (map maybe_box_native row))"
    then have "fst kv \<in> set (map PStr cs)" and "snd kv \<in> set (map maybe_box_native row)"
      using set_zip_leftD [of "fst kv" "snd kv"] set_zip_rightD [of "fst kv" "snd kv"]
      by fastforce+
    then show "is_str (fst kv)" and "json_value (snd kv)"
      using assms by (auto simp: list_all_iff)
  qed
qed

lemma to_dict_records_json:
  "normalizable (DataFrame f) \<Longrightarrow> d \<in> set (to_dict_records f) \<Longrightarrow>
   list_all (\<lambda>kv. is_str (fst kv) \<and> json_value (snd kv)) d"
  by (auto simp: to_dict_records_def list_all_iff intro!: record_json_items [unfolded list_all_iff, rule_format])

lemma series_to_dict_json:
  "normalizable (Series lvs) \<Longrightarrow>
   list_all (\<lambda>kv. is_str (fst kv) \<and> json_value (snd kv)) (series_to_dict lvs)"
  unfolding series_to_dict_def
  by (rule dict_of_items_all) (auto simp: list_all_iff)

text \<open>Values of that kind are normalized to serializable ones, well formed or not.\<close>

lemma normalizable_json: "normalizable v \<Longrightarrow> json_value (to_python_types v)"
proof (induction v rule: to_python_types.induct)
  case (1 f)
  then show ?case
    using to_dict_records_json [of f] by (auto simp: list_all_iff)
next
  case (2 lvs)
  then show ?case using series_to_dict_json [of lvs] by simp
next
  case (5 xs)
  then show ?case using tolist_json [of "NdArray xs"] by simp
next
  case (6 kvs)
  then show ?case by (auto simp: list_all_iff)
next
  case (7 xs)
  then show ?case by (auto simp: list_all_iff)
qed auto


































lemma write_all_Cons_ok:
  "snd (json_dump (to_python_types v)) = None \<Longrightarrow>
   write_all json_dump dir ((name, Inr v) # rest) fs =
     write_all json_dump dir rest (fs(dir @ ''/'' @ name \<mapsto> fst (json_dump (to_python_types v))))"
  by (simp add: write_json_def)

lemma write_all_Cons_fail:
  "snd (json_dump (to_python_types v)) = Some e \<Longrightarrow>
   write_all json_dump dir ((name, Inr v) # rest) fs =
     (fs(dir @ ''/'' @ name \<mapsto> fst (json_dump (to_python_types v))), Some e)"
  by (simp add: write_json_def)

lemma write_all_add:
  "write_all json_dump dir recs fs =
     (fs ++ fst (write_all json_dump dir recs Map.empty), snd (write_all json_dump dir recs Map.empty))"
proof (induction recs arbitrary: fs)
  case Nil
  then show ?case by simp
next
  case (Cons nr recs)
  obtain name res where nr: "nr = (name, res)" by (cases nr)
  show ?case
  proof (cases res)
    case (Inl e)
    then show ?thesis by (simp add: nr)
  next
    case (Inr v)
    define p where "p = dir @ ''/'' @ name"
    define t where "t = fst (json_dump (to_python_types v))"
    show ?thesis
    proof (cases "snd (json_dump (to_python_types v))")
      case (Some e)
      have step: "write_all json_dump dir (nr # recs) g = (g(p \<mapsto> t), Some e)" for g
        unfolding nr Inr p_def t_def by (rule write_all_Cons_fail [where json_dump = json_dump and v = v, OF Some])
      show ?thesis
        unfolding step by (simp only: fst_conv snd_conv map_add_upd map_add_empty)
    next
      case None
      have step: "write_all json_dump dir (nr # recs) g = write_all json_dump dir recs (g(p \<mapsto> t))" for g
        unfolding nr Inr p_def t_def by (rule write_all_Cons_ok [where json_dump = json_dump and v = v, OF None])
      have c: "fs ++ ([p \<mapsto> t] ++ m) = fs(p \<mapsto> t) ++ m" for m :: files
        by (rule ext) (auto simp: map_add_def split: option.splits)
      have "write_all json_dump dir recs (fs(p \<mapsto> t)) =
            (fs(p \<mapsto> t) ++ fst (write_all json_dump dir recs Map.empty),
             snd (write_all json_dump dir recs Map.empty))"
        by (rule Cons.IH)
      moreover have "write_all json_dump dir recs [p \<mapsto> t] =
            ([p \<mapsto> t] ++ fst (write_all json_dump dir recs Map.empty),
             snd (write_all json_dump dir recs Map.empty))"
        by (rule Cons.IH)
      ultimately show ?thesis
        unfolding step by (simp only: fst_conv snd_conv c)
    qed
  qed
qed

lemma write_all_written:
  "snd (write_all json_dump dir recs fs) = None \<Longrightarrow>
   dom fs \<union> (\<lambda>name. dir @ ''/'' @ name) ` fst ` set recs \<subseteq> dom (fst (write_all json_dump dir recs fs))"
proof (induction recs arbitrary: fs)
  case Nil
  then show ?case by simp
next
  case (Cons nr recs)
  obtain name res where nr: "nr = (name, res)" by (cases nr)
  show ?case
  proof (cases res)
    case (Inl e)
    with Cons.prems show ?thesis by (simp add: nr)
  next
    case (Inr v)
    define p where "p = dir @ ''/'' @ name"
    define t where "t = fst (json_dump (to_python_types v))"
    have ok: "snd (json_dump (to_python_types v)) = None"
    proof (cases "snd (json_dump (to_python_types v))")
      case (Some e)
      from Cons.prems show ?thesis
        unfolding nr Inr write_all_Cons_fail [where json_dump = json_dump and v = v, OF Some] by simp
    qed
    have step: "write_all json_dump dir (nr # recs) fs = write_all json_dump dir recs (fs(p \<mapsto> t))"
      unfolding nr Inr p_def t_def by (rule write_all_Cons_ok [where json_dump = json_dump and v = v, OF ok])
    with Cons.prems have "snd (write_all json_dump dir recs (fs(p \<mapsto> t))) = None" by simp
    from Cons.IH [OF this]
    have sub: "dom (fs(p \<mapsto> t)) \<union> (\<lambda>name. dir @ ''/'' @ name) ` fst ` set recs
        \<subseteq> dom (fst (write_all json_dump dir recs (fs(p \<mapsto> t))))" .
    have "dom fs \<union> (\<lambda>name. dir @ ''/'' @ name) ` fst ` set (nr # recs) \<subseteq>
          dom (fs(p \<mapsto> t)) \<union> (\<lambda>name. dir @ ''/'' @ name) ` fst ` set recs"
      by (auto simp: nr p_def)
    with sub show ?thesis
      unfolding step by (rule subset_trans [rotated])
  qed
qed

lemma export_data_add:
  "export_data cfg ld calc json_dump fs =
     (fs ++ fst (export_data cfg ld calc json_dump Map.empty),
      snd (export_data cfg ld calc json_dump Map.empty))"
  unfolding export_data_def
  by (auto split: sum.splits intro: write_all_add)

lemma export_data_written:
  assumes "snd (export_data cfg ld calc json_dump fs) = None" and "name \<in> set output_names"
  shows "OUTPUT_DIR cfg @ ''/'' @ name \<in> dom (fst (export_data cfg ld calc json_dump fs))"
proof -
  from assms(1) obtain combined report where
    run: "export_data cfg ld calc json_dump fs =
          write_all json_dump (OUTPUT_DIR cfg) (export_records cfg combined report) fs"
    by (auto simp: export_data_def split: sum.splits)
  have names: "fst ` set (export_records cfg combined report) = set output_names"
    by (simp add: export_records_def output_names_def)
  from assms(1) have "snd (write_all json_dump (OUTPUT_DIR cfg) (export_records cfg combined report) fs) = None"
    by (simp add: run)
  from write_all_written [OF this] assms(2) show ?thesis
    unfolding run names by blast
qed

section \<open>Running the export twice\<close>

text \<open>
  C8: a run started on the files that a first run with the same configuration, loader,
  calculator and serializer left behind ends with the same files and the same outcome;
  the outcome does not depend on the files found at the start, and after a run that
  raised nothing each of the eight output files exists with contents that do not depend
  on the files found at the start. (The script reads no clock and no other state.)
\<close>

theorem export_data_twice:
  "export_data cfg ld calc json_dump (fst (export_data cfg ld calc json_dump fs)) =
     export_data cfg ld calc json_dump fs \<and>
   snd (export_data cfg ld calc json_dump fs') = snd (export_data cfg ld calc json_dump fs) \<and>
   (snd (export_data cfg ld calc json_dump fs) = None \<longrightarrow>
      list_all (\<lambda>name.
          fst (export_data cfg ld calc json_dump fs) (OUTPUT_DIR cfg @ ''/'' @ name) \<noteq> None \<and>
          fst (export_data cfg ld calc json_dump fs') (OUTPUT_DIR cfg @ ''/'' @ name) =
            fst (export_data cfg ld calc json_dump fs) (OUTPUT_DIR cfg @ ''/'' @ name))
        output_names)"
proof -
  let ?m = "fst (export_data cfg ld calc json_dump Map.empty)"
  let ?e = "snd (export_data cfg ld calc json_dump Map.empty)"
  have run: "export_data cfg ld calc json_dump g = (g ++ ?m, ?e)" for g
    by (rule export_data_add)
  have twice: "export_data cfg ld calc json_dump (fst (export_data cfg ld calc json_dump fs)) =
     export_data cfg ld calc json_dump fs"
  proof -
    have "(fs ++ ?m) ++ ?m = fs ++ ?m"
      by (rule ext) (simp add: map_add_def split: option.splits)
    then show ?thesis
      by (simp only: run [of fs] run [of "fs ++ ?m"] fst_conv)
  qed
  have outcome: "snd (export_data cfg ld calc json_dump fs') = snd (export_data cfg ld calc json_dump fs)"
    by (simp add: run [of fs] run [of fs'])
  have files: "list_all (\<lambda>name.
          fst (export_data cfg ld calc json_dump fs) (OUTPUT_DIR cfg @ ''/'' @ name) \<noteq> None \<and>
          fst (export_data cfg ld calc json_dump fs') (OUTPUT_DIR cfg @ ''/'' @ name) =
            fst (export_data cfg ld calc json_dump fs) (OUTPUT_DIR cfg @ ''/'' @ name))
        output_names"
    if ok: "snd (export_data cfg ld calc json_dump fs) = None"
    unfolding list_all_iff
  proof (intro ballI)
    fix name assume name: "name \<in> set output_names"
    have "?e = None" using ok by (simp add: run [of fs])
    then have "snd (export_data cfg ld calc json_dump Map.empty) = None" .
    from export_data_written [OF this name] obtain t where
      t: "?m (OUTPUT_DIR cfg @ ''/'' @ name) = Some t" by blast
    show "fst (export_data cfg ld calc json_dump fs) (OUTPUT_DIR cfg @ ''/'' @ name) \<noteq> None \<and>
          fst (export_data cfg ld calc json_dump fs') (OUTPUT_DIR cfg @ ''/'' @ name) =
            fst (export_data cfg ld calc json_dump fs) (OUTPUT_DIR cfg @ ''/'' @ name)"
      using t by (simp add: run [of fs] run [of fs'] map_add_def)
  qed
  show ?thesis
    using twice outcome files by blast
qed

lemma example_combined:
  "combined_data script_config example_loader =
     Inr (Frame [PInt 1, PInt 2] [''purchase_year'', ''review_score'']
            [[NpInt 2022, NpFloat NaN], [NpInt 2023, NpFloat (Finite 4)]])"
  by (simp add: combined_data_def err_bind_def script_config_def example_loader_def
      example_orders_def keep_rows_def key_eq_def truthy_def opt_int_def getitem_column_def
      getitem_mask_def isin_def)

lemma example_records:
  "export_records script_config
     (Frame [PInt 1, PInt 2] [''purchase_year'', ''review_score'']
            [[NpInt 2022, NpFloat NaN], [NpInt 2023, NpFloat (Finite 4)]])
     (PDict example_report) =
   [(''kpi_metrics.json'',
     Inr (PDict [(PStr ''total_orders'', NpInt 2), (PStr ''total_revenue'', NpFloat (Finite 150)),
                 (PStr ''avg_order_value'', PInt 0), (PStr ''revenue_growth_pct'', PInt 0),
                 (PStr ''unique_customers'', PInt 0), (PStr ''fast_delivery_pct'', PInt 0)])),
    (''revenue.json'',
     Inr (PList [PDict [(PStr ''month'', PInt 1), (PStr ''revenue'', PInt 100),
                        (PStr ''year'', PInt 2023), (PStr ''orders'', PInt 5)]])),
    (''categories.json'', Inr (PList [])),
    (''reviews.json'',
     Inr (PDict [(PStr ''score_counts'', PDict [(PFloat (Finite 4), PInt 1)]),
                 (PStr ''average_score'', NpFloat (Finite (9 / 2))),
                 (PStr ''total_reviews'', NpInt 2),
                 (PStr ''score_5_percentage'', PInt 0),
                 (PStr ''score_4_plus_percentage'', PInt 0)])),
    (''geo.json'', Inr (PList [])),
    (''delivery.json'', Inr (PDict [])),
    (''payments.json'', Inr (PDict [])),
    (''customers.json'', Inr (PDict []))]"
  by (simp add: export_records_def kpi_metrics_def report_field_def monthly_data_def
      categories_data_def reviews_export_def score_counts_def err_bind_def dict_get_def
      example_report_def to_dict_records_def dict_of_items_def key_eq_def monthly_mapped_def
      script_config_def getitem_column_def getitem_mask_def notna_def value_counts_def
      series_to_dict_def)

lemma example_run:
  "export_data script_config (\<lambda>path. Inr example_loader) example_calculator example_dump fs =
     (fs(''EDA_Refactored/data/kpi_metrics.json'' \<mapsto> ''{}'',
         ''EDA_Refactored/data/revenue.json'' \<mapsto> ''[]'',
         ''EDA_Refactored/data/categories.json'' \<mapsto> ''[]'',
         ''EDA_Refactored/data/reviews.json'' \<mapsto> ''{}'',
         ''EDA_Refactored/data/geo.json'' \<mapsto> ''[]'',
         ''EDA_Refactored/data/delivery.json'' \<mapsto> ''{}'',
         ''EDA_Refactored/data/payments.json'' \<mapsto> ''{}'',
         ''EDA_Refactored/data/customers.json'' \<mapsto> ''{}''), None)"
proof -
  have "export_data script_config (\<lambda>path. Inr example_loader) example_calculator example_dump fs =
      write_all example_dump ''EDA_Refactored/data''
        (export_records script_config
           (Frame [PInt 1, PInt 2] [''purchase_year'', ''review_score'']
              [[NpInt 2022, NpFloat NaN], [NpInt 2023, NpFloat (Finite 4)]])
           (PDict example_report)) fs"
    by (simp add: export_data_def example_combined example_calculator_def)
      (simp add: script_config_def)
  then show ?thesis
    unfolding example_records
    by (simp add: write_json_def example_dump_def)
qed

theorem export_data_twice_witness:
  "snd (export_data script_config (\<lambda>path. Inr example_loader) example_calculator example_dump
          Map.empty) = None \<and>
   export_data script_config (\<lambda>path. Inr example_loader) example_calculator example_dump
     (fst (export_data script_config (\<lambda>path. Inr example_loader) example_calculator example_dump
             Map.empty)) =
   export_data script_config (\<lambda>path. Inr example_loader) example_calculator example_dump Map.empty \<and>
   fst (export_data script_config (\<lambda>path. Inr example_loader) example_calculator example_dump
          [''EDA_Refactored/data/reviews.json'' \<mapsto> ''stale''])
     (OUTPUT_DIR script_config @ ''/'' @ ''reviews.json'') =
   fst (export_data script_config (\<lambda>path. Inr example_loader) example_calculator example_dump
          Map.empty)
     (OUTPUT_DIR script_config @ ''/'' @ ''reviews.json'')"
proof -
  have ok: "snd (export_data script_config (\<lambda>path. Inr example_loader) example_calculator
      example_dump Map.empty) = None"
    by (simp only: example_run snd_conv)
  note inst = export_data_twice
    [where cfg = script_config and ld = "\<lambda>path. Inr example_loader" and calc = example_calculator
       and json_dump = example_dump and fs = Map.empty
       and fs' = "[''EDA_Refactored/data/reviews.json'' \<mapsto> ''stale'']"]
  from inst have twice: "export_data script_config (\<lambda>path. Inr example_loader) example_calculator example_dump
     (fst (export_data script_config (\<lambda>path. Inr example_loader) example_calculator example_dump
             Map.empty)) =
   export_data script_config (\<lambda>path. Inr example_loader) example_calculator example_dump Map.empty"
    by (rule conjunct1)
  from inst ok have "list_all (\<lambda>name.
          fst (export_data script_config (\<lambda>path. Inr example_loader) example_calculator example_dump
                 Map.empty) (OUTPUT_DIR script_config @ ''/'' @ name) \<noteq> None \<and>
          fst (export_data script_config (\<lambda>path. Inr example_loader) example_calculator example_dump
                 [''EDA_Refactored/data/reviews.json'' \<mapsto> ''stale''])
              (OUTPUT_DIR script_config @ ''/'' @ name) =
          fst (export_data script_config (\<lambda>path. Inr example_loader) example_calculator example_dump
                 Map.empty) (OUTPUT_DIR script_config @ ''/'' @ name))
        output_names"
    by blast
  then have same: "fst (export_data script_config (\<lambda>path. Inr example_loader) example_calculator example_dump
          [''EDA_Refactored/data/reviews.json'' \<mapsto> ''stale''])
     (OUTPUT_DIR script_config @ ''/'' @ ''reviews.json'') =
   fst (export_data script_config (\<lambda>path. Inr example_loader) example_calculator example_dump
          Map.empty)
     (OUTPUT_DIR script_config @ ''/'' @ ''reviews.json'')"
    unfolding output_names_def list_all_iff by (simp del: append.simps)
  show ?thesis
    using ok twice same by blast
qed

end
